(* ===== verification/Restosaur_Prelude.thy ===== *)
theory Restosaur_Prelude
  imports Main "HOL-Library.AList" "HOL-Library.Sublist"
begin

text \<open>
  Shared vocabulary of the restosaur development: the Python exceptions the
  modelled code can raise, JSON-like Python values, Python dictionaries as
  association lists updated the way \<open>dict.update\<close> and item assignment do, and
  the Python 2 string builtins the sources call (\<open>str.replace\<close>, \<open>str.upper\<close>,
  the \<open>[a-zA-Z_]\<close> character class of the URL-template regular expression).
  Python 2 \<open>str\<close> values are byte strings, so a \<open>string\<close> (a list of 8-bit
  \<open>char\<close>s) is exactly a Python 2 \<open>str\<close>.
\<close>

named_theorems dict_simps "evaluation rules of the dictionary model"

section \<open>Exceptions and Python values\<close>

datatype py_error = TypeError | AttributeError | KeyError | ValueError

type_synonym 'a result = "py_error + 'a"

text \<open>
  Values that flow through the response pipeline: \<open>None\<close>, booleans, integers,
  byte strings, lists and dictionaries with string keys. A dictionary is the
  association list of its items in insertion order.
\<close>

datatype json =
    JNone
  | JBool bool
  | JInt int
  | JStr string
  | JList "json list"
  | JDict "(string \<times> json) list"

type_synonym dict = "(string \<times> json) list"

text \<open>Python truthiness of a value (\<open>if x:\<close>, \<open>not x\<close>, \<open>x or y\<close>).\<close>

fun truthy :: "json \<Rightarrow> bool" where
  "truthy JNone = False"
| "truthy (JBool b) = b"
| "truthy (JInt i) = (i \<noteq> 0)"
| "truthy (JStr s) = (s \<noteq> [])"
| "truthy (JList xs) = (xs \<noteq> [])"
| "truthy (JDict d) = (d \<noteq> [])"

definition py_or :: "json \<Rightarrow> json \<Rightarrow> json" where
  "py_or x y = (if truthy x then x else y)"

text \<open>
  A Python dictionary is well formed when its keys are distinct; a value is well
  formed when every dictionary inside it is.
\<close>

fun json_wf :: "json \<Rightarrow> bool" where
  "json_wf (JList xs) = list_all json_wf xs"
| "json_wf (JDict d) = (distinct (map fst d) \<and> list_all (\<lambda>kv. json_wf (snd kv)) d)"
| "json_wf _ = True"

section \<open>Dictionaries\<close>

text \<open>
  \<open>d.update(e)\<close> assigns the items of \<open>e\<close> one after the other: an existing key
  keeps its position and takes the new value, a new key is appended.
\<close>

definition dict_update :: "('k \<times> 'v) list \<Rightarrow> ('k \<times> 'v) list \<Rightarrow> ('k \<times> 'v) list" where
  "dict_update d e = fold (\<lambda>(k, v) acc. AList.update k v acc) e d"

text \<open>Sequencing of operations that may raise: the first exception propagates.\<close>

definition bind_result :: "'a result \<Rightarrow> ('a \<Rightarrow> 'b result) \<Rightarrow> 'b result" where
  "bind_result m f = (case m of Inl e \<Rightarrow> Inl e | Inr x \<Rightarrow> f x)"

fun sequence_result :: "'a result list \<Rightarrow> 'a list result" where
  "sequence_result [] = Inr []"
| "sequence_result (m # ms) =
     bind_result m (\<lambda>x. bind_result (sequence_result ms) (\<lambda>xs. Inr (x # xs)))"

text \<open>
  The argument of \<open>d.update(x)\<close>: a dictionary gives its items; any other
  iterable must yield pairs, each itself an iterable of length two (a two-element
  list, a two-character string, a dictionary with two keys); \<open>ValueError\<close>
  for an element of another length, \<open>TypeError\<close> for a value that is not
  iterable. Keys are strings in this model: a pair whose key is not a string is
  reported as \<open>TypeError\<close> (Python accepts numbers and booleans as keys; the
  sources never build such a pair).
\<close>

fun update_pair :: "json \<Rightarrow> (string \<times> json) result" where
  "update_pair (JList [JStr k, v]) = Inr (k, v)"
| "update_pair (JStr [a, b]) = Inr ([a], JStr [b])"
| "update_pair (JDict [(k1, v1), (k2, v2)]) = Inr (k1, JStr k2)"
| "update_pair (JList xs) = Inl (if length xs = 2 then TypeError else ValueError)"
| "update_pair (JStr s) = Inl ValueError"
| "update_pair (JDict d) = Inl ValueError"
| "update_pair _ = Inl TypeError"

definition as_mapping :: "json \<Rightarrow> dict result" where
  "as_mapping x =
     (case x of
        JDict d \<Rightarrow> Inr d
      | JList xs \<Rightarrow> sequence_result (map update_pair xs)
      | JStr s \<Rightarrow> (if s = [] then Inr [] else Inl ValueError)
      | _ \<Rightarrow> Inl TypeError)"

text \<open>\<open>iter(x)\<close>: the elements of a list, the one-character strings of a string, the keys of a dictionary.\<close>

definition py_iter :: "json \<Rightarrow> json list result" where
  "py_iter x =
     (case x of
        JList xs \<Rightarrow> Inr xs
      | JStr s \<Rightarrow> Inr (map (\<lambda>c. JStr [c]) s)
      | JDict d \<Rightarrow> Inr (map (\<lambda>kv. JStr (fst kv)) d)
      | _ \<Rightarrow> Inl TypeError)"

section \<open>Python 2 string builtins\<close>

text \<open>
  \<open>s.replace(old, new)\<close>: every non-overlapping occurrence of \<open>old\<close>, from left
  to right, is replaced by \<open>new\<close>. An empty \<open>old\<close> matches before every
  character and at the end.
\<close>

fun replace_occurrences :: "string \<Rightarrow> string \<Rightarrow> string \<Rightarrow> string" where
  "replace_occurrences old new [] = []"
| "replace_occurrences old new (c # s) =
     (if old \<noteq> [] \<and> take (length old) (c # s) = old
      then new @ replace_occurrences old new (drop (length old) (c # s))
      else c # replace_occurrences old new s)"

definition py_replace :: "string \<Rightarrow> string \<Rightarrow> string \<Rightarrow> string" where
  "py_replace old new s =
     (if old = [] then new @ concat (map (\<lambda>c. c # new) s)
      else replace_occurrences old new s)"

text \<open>\<open>str.upper()\<close> of a Python 2 byte string in the C locale: only a-z change.\<close>

definition upper_char :: "char \<Rightarrow> char" where
  "upper_char c =
     (let n = (of_char c :: nat) in if 97 \<le> n \<and> n \<le> 122 then char_of (n - 32) else c)"

definition py_upper :: "string \<Rightarrow> string" where
  "py_upper s = map upper_char s"

text \<open>The character class \<open>[a-zA-Z_]\<close> (without the UNICODE flag: ASCII only).\<close>

definition is_ident_char :: "char \<Rightarrow> bool" where
  "is_ident_char c =
     (let n = (of_char c :: nat) in (65 \<le> n \<and> n \<le> 90) \<or> (97 \<le> n \<and> n \<le> 122) \<or> n = 95)"

section \<open>Lemmas on dictionaries\<close>

lemma dict_update_Nil [simp, dict_simps]: "dict_update d [] = d"
  by (simp add: dict_update_def)

lemma dict_update_Cons [simp, dict_simps]:
  "dict_update d ((k, v) # e) = dict_update (AList.update k v d) e"
  by (simp add: dict_update_def)

lemma map_of_dict_update [dict_simps]:
  "map_of (dict_update d e) = map_of d ++ map_of (rev e)"
proof (induction e arbitrary: d)
  case Nil
  then show ?case by simp
next
  case (Cons kv e)
  obtain k v where kv: "kv = (k, v)" by fastforce
  have "map_of (dict_update d (kv # e)) = map_of (AList.update k v d) ++ map_of (rev e)"
    using Cons.IH kv by simp
  also have "\<dots> = map_of d ++ map_of (rev (kv # e))"
    by (auto simp: kv update_conv' map_add_def fun_eq_iff split: option.splits)
  finally show ?case .
qed

lemma distinct_dict_update [dict_simps]:
  "distinct (map fst d) \<Longrightarrow> distinct (map fst (dict_update d e))"
  by (induction e arbitrary: d) (auto simp: distinct_update)

lemma keys_dict_update [dict_simps]:
  "set (map fst (dict_update d e)) = set (map fst d) \<union> set (map fst e)"
proof (induction e arbitrary: d)
  case Nil
  then show ?case by simp
next
  case (Cons kv e)
  then show ?case
    by (cases kv) (auto simp: dom_update)
qed

lemma map_of_rev_distinct [dict_simps]:
  "distinct (map fst e) \<Longrightarrow> map_of (rev e) = map_of e"
proof (induction e)
  case Nil
  then show ?case by simp
next
  case (Cons kv e)
  then have "map_of e (fst kv) = None" and "map_of (rev e) = map_of e"
    by (auto simp: map_of_eq_None_iff)
  then show ?case
    by (cases kv) (simp add: map_add_def fun_eq_iff split: option.splits)
qed

lemma bind_result_simps [simp]:
  "bind_result (Inl e) f = Inl e"
  "bind_result (Inr x) f = f x"
  by (simp_all add: bind_result_def)

lemma bind_result_Inr_iff:
  "bind_result m f = Inr y \<longleftrightarrow> (\<exists>x. m = Inr x \<and> f x = Inr y)"
  by (cases m) simp_all

lemma as_mapping_JDict [simp]: "as_mapping (JDict d) = Inr d"
  by (simp add: as_mapping_def)

section \<open>Lemmas on the string builtins\<close>

lemma replace_skip:
  "take (length old) (c # s) \<noteq> old \<Longrightarrow>
   replace_occurrences old new (c # s) = c # replace_occurrences old new s"
  by simp

lemma replace_match:
  "old \<noteq> [] \<Longrightarrow> replace_occurrences old new (old @ s) = new @ replace_occurrences old new s"
  by (cases old) simp_all

text \<open>
  The recursive equation leaves the simpset: the lemmas above and below are
  the characteristic cases that proofs use.
\<close>

declare replace_occurrences.simps(2) [simp del]

lemma replace_append_nohead:
  "old \<noteq> [] \<Longrightarrow> hd old \<notin> set xs \<Longrightarrow>
   replace_occurrences old new (xs @ s) = xs @ replace_occurrences old new s"
proof (induction xs)
  case (Cons c xs)
  then have "take (length old) (c # xs @ s) \<noteq> old"
    by (cases old) auto
  with Cons show ?case by (simp add: replace_skip)
qed simp

lemma py_replace_nonempty [simp]: "old \<noteq> [] \<Longrightarrow> py_replace old new s = replace_occurrences old new s"
  by (simp add: py_replace_def)


lemma slash_not_ident [simp]: "\<not> is_ident_char CHR ''/''"
  by (simp add: is_ident_char_def)

lemma colon_not_ident [simp]: "\<not> is_ident_char CHR '':''"
  by (simp add: is_ident_char_def)

section \<open>Updating an item in place\<close>

text \<open>
  Assigning a key that is present keeps its position; these lemmas let such an
  assignment move across a \<open>dict.update\<close> that does not touch the key, and
  show that repeating an update with distinct keys changes nothing.
\<close>

lemma update_commute:
  "k \<in> fst ` set d \<Longrightarrow> k \<noteq> k' \<Longrightarrow>
   AList.update k v (AList.update k' w d) = AList.update k' w (AList.update k v d)"
  by (induction d) auto

lemma dict_update_commute:
  "k \<in> fst ` set d \<Longrightarrow> k \<notin> set (map fst e) \<Longrightarrow>
   dict_update (AList.update k v d) e = AList.update k v (dict_update d e)"
proof (induction e arbitrary: d)
  case (Cons kw e)
  obtain k' w where kw: "kw = (k', w)" by fastforce
  with Cons.prems have "k \<noteq> k'" by auto
  with Cons.prems(1) have "AList.update k' w (AList.update k v d) = AList.update k v (AList.update k' w d)"
    by (simp add: update_commute [symmetric])
  moreover have "k \<in> fst ` set (AList.update k' w d)" and "k \<notin> set (map fst e)"
    using Cons.prems kw by (auto simp: dom_update)
  ultimately show ?case
    using Cons.IH kw by simp
qed simp

lemma dict_update_inner:
  "distinct (map fst e) \<Longrightarrow> k \<in> set (map fst e) \<Longrightarrow>
   dict_update d (AList.update k v e) = AList.update k v (dict_update d e)"
proof (induction e arbitrary: d)
  case (Cons kw e)
  obtain k' w where kw: "kw = (k', w)" by fastforce
  show ?case
  proof (cases "k' = k")
    case True
    with Cons.prems kw have "k \<notin> set (map fst e)" by simp
    have "k \<in> fst ` set (AList.update k w d)" by (simp add: dom_update)
    then have "dict_update (AList.update k v (AList.update k w d)) e
        = AList.update k v (dict_update (AList.update k w d) e)"
      using \<open>k \<notin> set (map fst e)\<close> by (rule dict_update_commute)
    with True kw show ?thesis by simp
  next
    case False
    with Cons.prems kw show ?thesis by (simp add: Cons.IH)
  qed
qed simp

lemma dict_update_fixed:
  "distinct (map fst e) \<Longrightarrow> (\<And>k v. map_of e k = Some v \<Longrightarrow> map_of d k = Some v) \<Longrightarrow> dict_update d e = d"
proof (induction e arbitrary: d)
  case (Cons kw e)
  obtain k w where kw: "kw = (k, w)" by fastforce
  have "AList.update k w d = d"
    using Cons.prems(2) [of k w] kw by (simp add: update_triv)
  moreover have "map_of d k' = Some v" if "map_of e k' = Some v" for k' v
  proof -
    have "(k', v) \<in> set e" using that by (rule map_of_SomeD)
    then have "k' \<in> set (map fst e)" by force
    then have "k' \<noteq> k" using Cons.prems(1) kw by auto
    then show ?thesis using Cons.prems(2) [of k' v] that kw by simp
  qed
  ultimately show ?case using Cons.IH Cons.prems(1) kw by simp
qed simp

lemma dict_update_idem:
  "distinct (map fst e) \<Longrightarrow> dict_update (dict_update d e) e = dict_update d e"
  by (rule dict_update_fixed) (simp_all add: map_of_dict_update map_of_rev_distinct map_add_def)

end
