(* ===== verification/Resource.thy ===== *)
theory Resource
  imports Restosaur_Prelude
begin

text \<open>
  The resource interface the responses consume. The \<open>Resource\<close> class is not
  under \<open>src/\<close>; this theory models what the spec says of it (section 6,
  "Resource contract consumed"): a URL template, named representations, each a
  converter of a value, and the declared links \<open>_links\<close>, a dictionary from a
  link key to an HTTP method and a linked resource. A converter is called with
  the request's context, which is fixed for the request, so it is modelled as a
  function of the value alone. A linked resource is represented by its URL
  template, which is all that its \<open>uri\<close> method reads besides the context.
\<close>

record linked_resource =
  lr_path :: string

record resource =
  res_path :: string
  representations :: "string \<rightharpoonup> (json \<Rightarrow> json)"
  res_links :: "(string \<times> string \<times> linked_resource) list"

text \<open>
  \<open>resource.convert(context, data, representation)\<close>: the named
  representation's converter, or the identity when the resource declares none.
\<close>

definition convert :: "resource \<Rightarrow> json \<Rightarrow> string \<Rightarrow> json" where
  "convert res data representation =
     (case representations res representation of None \<Rightarrow> data | Some f \<Rightarrow> f data)"

end
