(* ===== verification/Urltemplate.thy ===== *)
theory Urltemplate
  imports Restosaur_Prelude
begin

text \<open>
  Model of \<open>src/restosaur/urltemplate.py\<close>: the regular expression
  \<open>RE_PARAMS = '(/:([a-zA-Z_]+))'\<close> as a left-to-right scanner
  (\<open>findall\<close> and \<open>sub\<close>), and the three functions \<open>to_url\<close>,
  \<open>remove_parameters\<close> and \<open>to_django_urlpattern\<close>. The second half views a
  template as a list of segments (literal characters, placeholders, substituted
  text) and proves \<open>to_url\<close>, which substitutes with one \<open>str.replace\<close> per
  placeholder, equal to a single-pass substitution when no placeholder name is a
  proper prefix of another and the values contain no \<open>/\<close>.
\<close>

section \<open>The code\<close>

text \<open>
  \<open>RE_PARAMS.findall(s)\<close>: at each position, try \<open>/:\<close> followed by the longest
  non-empty run of \<open>[a-zA-Z_]\<close>; on a match record \<open>(needle, name)\<close> and go on
  after it, otherwise go on at the next position.
\<close>

function re_params_findall :: "string \<Rightarrow> (string \<times> string) list" where
  "re_params_findall [] = []"
| "re_params_findall [c] = []"
| "re_params_findall [c, d] = []"
| "re_params_findall (c # d # e # t) =
     (if c = CHR ''/'' \<and> d = CHR '':'' \<and> is_ident_char e
      then (let name = e # takeWhile is_ident_char t
            in (CHR ''/'' # CHR '':'' # name, name) # re_params_findall (dropWhile is_ident_char t))
      else re_params_findall (d # e # t))"
  by pat_completeness auto
termination
  by (relation "measure length") (auto intro: le_less_trans [OF length_dropWhile_le])

text \<open>\<open>RE_PARAMS.sub(repl, s)\<close> with the replacement computed from group 2 (the name).\<close>

function re_params_sub :: "(string \<Rightarrow> string) \<Rightarrow> string \<Rightarrow> string" where
  "re_params_sub f [] = []"
| "re_params_sub f [c] = [c]"
| "re_params_sub f [c, d] = [c, d]"
| "re_params_sub f (c # d # e # t) =
     (if c = CHR ''/'' \<and> d = CHR '':'' \<and> is_ident_char e
      then f (e # takeWhile is_ident_char t) @ re_params_sub f (dropWhile is_ident_char t)
      else c # re_params_sub f (d # e # t))"
  by pat_completeness auto
termination
  by (relation "measure (\<lambda>(f, s). length s)") (auto intro: le_less_trans [OF length_dropWhile_le])

text \<open>
  \<open>to_url(urltemplate, params)\<close>: for each match in order, replace every
  occurrence of the needle by \<open>'/%s' % params[key]\<close>; a missing key raises
  \<open>KeyError\<close>, which is caught and skips the match. Parameter values are taken
  as the strings \<open>'%s'\<close> makes of them.
\<close>

definition to_url :: "string \<Rightarrow> (string \<rightharpoonup> string) \<Rightarrow> string" where
  "to_url urltemplate params =
     (let uri = urltemplate;
          params_to_replace = re_params_findall urltemplate
      in if params_to_replace \<noteq> []
         then fold (\<lambda>(needle, key) uri.
                      case params key of
                        None \<Rightarrow> uri
                      | Some v \<Rightarrow> py_replace needle (CHR ''/'' # v) uri)
                   params_to_replace uri
         else uri)"

definition remove_parameters :: "string \<Rightarrow> string" where
  "remove_parameters urltemplate =
     fold (\<lambda>(needle, key) uri. py_replace needle [] uri)
          (re_params_findall urltemplate) urltemplate"

definition to_django_urlpattern :: "string \<Rightarrow> string" where
  "to_django_urlpattern path =
     re_params_sub (\<lambda>name. ''/(?P<'' @ name @ ''>[^/]+)'') path"

section \<open>Reference behaviour\<close>

text \<open>
  What the spec describes for \<open>resolve\<close>: one pass over the template, each
  placeholder replaced by \<open>/\<close> and its value when the key is present and left as
  it is otherwise.
\<close>

definition needle :: "string \<Rightarrow> string" where
  "needle n = CHR ''/'' # CHR '':'' # n"

definition resolve_spec :: "string \<Rightarrow> (string \<rightharpoonup> string) \<Rightarrow> string" where
  "resolve_spec urltemplate params =
     re_params_sub (\<lambda>n. case params n of None \<Rightarrow> needle n | Some v \<Rightarrow> CHR ''/'' # v) urltemplate"

definition template_names :: "string \<Rightarrow> string list" where
  "template_names s = map snd (re_params_findall s)"

definition prefix_free_names :: "string \<Rightarrow> bool" where
  "prefix_free_names s =
     list_all (\<lambda>n. list_all (\<lambda>m. \<not> strict_prefix n m) (template_names s)) (template_names s)"

text \<open>A value is substituted safely when it is non-empty, has no \<open>/\<close> and does not start with \<open>:\<close>.\<close>

definition safe_value :: "string \<Rightarrow> bool" where
  "safe_value v = (v \<noteq> [] \<and> hd v \<noteq> CHR '':'' \<and> CHR ''/'' \<notin> set v)"

definition safe_params :: "string \<Rightarrow> (string \<rightharpoonup> string) \<Rightarrow> bool" where
  "safe_params s params =
     list_all (\<lambda>n. case params n of None \<Rightarrow> True | Some v \<Rightarrow> safe_value v) (template_names s)"

section \<open>Templates as segments\<close>

text \<open>
  A template is read as literal characters and placeholders, the way the
  scanner reads it; substitution turns placeholders into \<open>Sub\<close> text.
\<close>

datatype seg = Lit char | Ph string | Sub string

fun seg_text :: "seg \<Rightarrow> string" where
  "seg_text (Lit c) = [c]"
| "seg_text (Ph n) = needle n"
| "seg_text (Sub r) = r"

definition render :: "seg list \<Rightarrow> string" where
  "render ts = concat (map seg_text ts)"

function scan :: "string \<Rightarrow> seg list" where
  "scan [] = []"
| "scan [c] = [Lit c]"
| "scan [c, d] = [Lit c, Lit d]"
| "scan (c # d # e # t) =
     (if c = CHR ''/'' \<and> d = CHR '':'' \<and> is_ident_char e
      then Ph (e # takeWhile is_ident_char t) # scan (dropWhile is_ident_char t)
      else Lit c # scan (d # e # t))"
  by pat_completeness auto
termination
  by (relation "measure length") (auto intro: le_less_trans [OF length_dropWhile_le])

fun ph_names :: "seg list \<Rightarrow> string list" where
  "ph_names [] = []"
| "ph_names (Ph n # ts) = n # ph_names ts"
| "ph_names (_ # ts) = ph_names ts"

text \<open>The conditions under which the scanner sees a segment list as written.\<close>

definition colon_ident :: "string \<Rightarrow> bool" where
  "colon_ident s = (case s of d # e # _ \<Rightarrow> d = CHR '':'' \<and> is_ident_char e | _ \<Rightarrow> False)"

definition starts_ident :: "string \<Rightarrow> bool" where
  "starts_ident s = (case s of e # _ \<Rightarrow> is_ident_char e | [] \<Rightarrow> False)"

definition name_ok :: "string \<Rightarrow> bool" where
  "name_ok n = (n \<noteq> [] \<and> list_all is_ident_char n)"

definition safe_sub :: "string \<Rightarrow> bool" where
  "safe_sub r = (case r of c # v \<Rightarrow> c = CHR ''/'' \<and> safe_value v | [] \<Rightarrow> False)"

fun seg_wf :: "seg list \<Rightarrow> bool" where
  "seg_wf [] = True"
| "seg_wf (Lit c # ts) = (\<not> (c = CHR ''/'' \<and> colon_ident (render ts)) \<and> seg_wf ts)"
| "seg_wf (Ph n # ts) = (name_ok n \<and> \<not> starts_ident (render ts) \<and> seg_wf ts)"
| "seg_wf (Sub r # ts) = ((r = [] \<or> safe_sub r) \<and> seg_wf ts)"

fun subst_seg :: "string \<Rightarrow> string \<Rightarrow> seg \<Rightarrow> seg" where
  "subst_seg n r (Ph m) = (if m = n then Sub r else Ph m)"
| "subst_seg n r x = x"

fun resolve_seg :: "(string \<rightharpoonup> string) \<Rightarrow> seg \<Rightarrow> seg" where
  "resolve_seg params (Ph m) = (case params m of None \<Rightarrow> Ph m | Some v \<Rightarrow> Sub (CHR ''/'' # v))"
| "resolve_seg params x = x"

fun ph_in :: "string list \<Rightarrow> seg \<Rightarrow> bool" where
  "ph_in ns (Ph m) = (m \<in> set ns)"
| "ph_in ns _ = False"

text \<open>
  A \<open>/\<close> directly before a placeholder: removing that placeholder joins the
  \<open>/\<close> with the text after it, where \<open>remove_parameters\<close> may then find a
  new one.
\<close>

fun slash_before_ph :: "seg list \<Rightarrow> bool" where
  "slash_before_ph (Lit c # Lit d # ts) = slash_before_ph (Lit d # ts)"
| "slash_before_ph (Lit c # x # ts) = (c = CHR ''/'' \<or> slash_before_ph (x # ts))"
| "slash_before_ph (x # ts) = slash_before_ph ts"
| "slash_before_ph [] = False"

subsection \<open>Rendering and scanning\<close>

lemma render_simps [simp]:
  "render [] = []"
  "render (x # ts) = seg_text x @ render ts"
  by (simp_all add: render_def)

lemma takeWhile_dropWhile_Nil:
  "\<not> starts_ident s \<Longrightarrow> takeWhile is_ident_char s = [] \<and> dropWhile is_ident_char s = s"
  by (cases s) (auto simp: starts_ident_def)

lemma not_starts_ident_dropWhile: "\<not> starts_ident (dropWhile is_ident_char s)"
  by (induction s) (auto simp: starts_ident_def)

lemma render_scan: "render (scan s) = s"
  by (induction s rule: scan.induct) (auto simp: needle_def)

lemma findall_skip:
  "\<not> (c = CHR ''/'' \<and> colon_ident s) \<Longrightarrow> re_params_findall (c # s) = re_params_findall s"
  by (cases s rule: re_params_findall.cases) (auto simp: colon_ident_def)

lemma findall_append_noslash:
  "CHR ''/'' \<notin> set xs \<Longrightarrow> re_params_findall (xs @ s) = re_params_findall s"
  by (induction xs) (auto simp: findall_skip)

lemma findall_placeholder:
  assumes "name_ok n" and "\<not> starts_ident s"
  shows "re_params_findall (needle n @ s) = (needle n, n) # re_params_findall s"
proof -
  obtain e n' where n: "n = e # n'" "is_ident_char e" "list_all is_ident_char n'"
    using assms(1) by (cases n) (auto simp: name_ok_def)
  then have "takeWhile is_ident_char (n' @ s) = n'" "dropWhile is_ident_char (n' @ s) = s"
    using assms(2) takeWhile_dropWhile_Nil [of s]
    by (simp_all add: takeWhile_append2 dropWhile_append2 list_all_iff)
  with n show ?thesis by (simp add: needle_def Let_def)
qed

lemma sub_skip:
  "\<not> (c = CHR ''/'' \<and> colon_ident s) \<Longrightarrow> re_params_sub f (c # s) = c # re_params_sub f s"
  by (cases s rule: re_params_findall.cases) (auto simp: colon_ident_def)

lemma sub_placeholder:
  assumes "name_ok n" and "\<not> starts_ident s"
  shows "re_params_sub f (needle n @ s) = f n @ re_params_sub f s"
proof -
  obtain e n' where n: "n = e # n'" "is_ident_char e" "list_all is_ident_char n'"
    using assms(1) by (cases n) (auto simp: name_ok_def)
  then have "takeWhile is_ident_char (n' @ s) = n'" "dropWhile is_ident_char (n' @ s) = s"
    using assms(2) takeWhile_dropWhile_Nil [of s]
    by (simp_all add: takeWhile_append2 dropWhile_append2 list_all_iff)
  with n show ?thesis by (simp add: needle_def)
qed

lemma seg_wf_scan: "seg_wf (scan s)"
proof (induction s rule: scan.induct)
  case (4 c d e t)
  show ?case
  proof (cases "c = CHR ''/'' \<and> d = CHR '':'' \<and> is_ident_char e")
    case True
    have "name_ok (e # takeWhile is_ident_char t)"
      using True by (auto simp: name_ok_def list_all_iff dest: set_takeWhileD)
    with True "4.IH"(1) show ?thesis
      by (simp add: render_scan not_starts_ident_dropWhile)
  next
    case False
    then have "scan (c # d # e # t) = Lit c # scan (d # e # t)"
      by (simp only: scan.simps if_False)
    with False "4.IH"(2) show ?thesis
      by (auto simp: render_scan colon_ident_def)
  qed
qed (simp_all add: colon_ident_def)

lemma seg_wf_name_ok: "seg_wf ts \<Longrightarrow> n \<in> set (ph_names ts) \<Longrightarrow> name_ok n"
  by (induction ts rule: ph_names.induct) auto

text \<open>The scanner finds exactly the placeholders of a well-formed segment list.\<close>

lemma findall_render:
  "seg_wf ts \<Longrightarrow> re_params_findall (render ts) = map (\<lambda>n. (needle n, n)) (ph_names ts)"
proof (induction ts rule: seg_wf.induct)
  case (2 c ts)
  then show ?case by (simp add: findall_skip)
next
  case (3 n ts)
  then show ?case by (simp add: findall_placeholder)
next
  case (4 r ts)
  have "re_params_findall (r @ render ts) = re_params_findall (render ts)"
  proof (cases "r = []")
    case False
    with "4.prems" obtain v where r: "r = CHR ''/'' # v" and v: "safe_value v"
      by (auto simp: safe_sub_def split: list.splits)
    then have "\<not> colon_ident (v @ render ts)"
      by (cases v) (auto simp: colon_ident_def safe_value_def split: list.splits)
    then show ?thesis
      using v by (simp add: r findall_skip findall_append_noslash safe_value_def)
  qed simp
  with 4 show ?case by simp
qed simp

lemma sub_render:
  "seg_wf ts \<Longrightarrow> list_all (\<lambda>x. \<forall>r. x \<noteq> Sub r) ts \<Longrightarrow>
   re_params_sub f (render ts) = concat (map (\<lambda>x. case x of Ph n \<Rightarrow> f n | _ \<Rightarrow> seg_text x) ts)"
proof (induction ts rule: seg_wf.induct)
  case (2 c ts)
  then show ?case by (simp add: sub_skip)
next
  case (3 n ts)
  then show ?case by (simp add: sub_placeholder)
qed simp_all

lemma scan_no_sub: "list_all (\<lambda>x. \<forall>r. x \<noteq> Sub r) (scan s)"
proof (induction s rule: scan.induct)
  case (4 c d e t)
  show ?case
  proof (cases "c = CHR ''/'' \<and> d = CHR '':'' \<and> is_ident_char e")
    case True
    with "4.IH"(1) show ?thesis by (simp only: scan.simps if_True) simp
  next
    case False
    with "4.IH"(2) show ?thesis by (simp only: scan.simps if_False) simp
  qed
qed simp_all

corollary sub_scan:
  "re_params_sub f s = concat (map (\<lambda>x. case x of Ph n \<Rightarrow> f n | _ \<Rightarrow> seg_text x) (scan s))"
  using sub_render [OF seg_wf_scan scan_no_sub, of f s] by (simp only: render_scan)

subsection \<open>One \<open>str.replace\<close> on a segment list\<close>

lemma needle_ne [simp]: "needle n \<noteq> []"
  by (simp add: needle_def)

lemma needle_prefix:
  assumes "name_ok n" and "take (length (needle n)) (c # s) = needle n"
  shows "c = CHR ''/'' \<and> colon_ident s"
proof -
  obtain e n' where n: "n = e # n'" "is_ident_char e"
    using assms(1) by (cases n) (auto simp: name_ok_def)
  with assms(2) show ?thesis
    by (cases s rule: re_params_findall.cases) (auto simp: needle_def colon_ident_def)
qed

lemma name_no_overlap:
  assumes "name_ok n" and "m \<noteq> n" and "\<not> strict_prefix n m" and "\<not> starts_ident s"
  shows "take (length n) (m @ s) \<noteq> n"
proof
  assume eq: "take (length n) (m @ s) = n"
  show False
  proof (cases "length n \<le> length m")
    case True
    with eq have "take (length n) m = n" by simp
    then have "prefix n m" by (metis take_is_prefix)
    with assms(2,3) show False by (simp add: strict_prefix_def)
  next
    case False
    with eq have n: "n = m @ take (length n - length m) s" by simp
    with assms(2) obtain x s' where s: "s = x # s'"
      by (cases s) auto
    with n False have "x \<in> set n"
      by (cases "length n - length m") auto
    with assms(1,4) s show False
      by (simp add: name_ok_def list_all_iff starts_ident_def)
  qed
qed

lemma replace_render:
  "seg_wf ts \<Longrightarrow> name_ok n \<Longrightarrow> list_all (\<lambda>m. \<not> strict_prefix n m) (ph_names ts) \<Longrightarrow>
   replace_occurrences (needle n) r (render ts) = render (map (subst_seg n r) ts)"
proof (induction ts rule: seg_wf.induct)
  case (2 c ts)
  from "2.prems" have wf: "\<not> (c = CHR ''/'' \<and> colon_ident (render ts))" "seg_wf ts" by simp_all
  then have "take (length (needle n)) (c # render ts) \<noteq> needle n"
    using needle_prefix "2.prems"(2) by blast
  then have "replace_occurrences (needle n) r (render (Lit c # ts))
      = c # replace_occurrences (needle n) r (render ts)"
    by (simp add: replace_skip)
  with "2.IH" wf "2.prems" show ?case by simp
next
  case (3 m ts)
  from "3.prems" have wf: "name_ok m" "\<not> starts_ident (render ts)" "seg_wf ts"
    and pf: "\<not> strict_prefix n m" "list_all (\<lambda>m. \<not> strict_prefix n m) (ph_names ts)"
    by simp_all
  have IH: "replace_occurrences (needle n) r (render ts) = render (map (subst_seg n r) ts)"
    using "3.IH" wf pf "3.prems"(2) by blast
  show ?case
  proof (cases "m = n")
    case True
    then have "replace_occurrences (needle n) r (render (Ph m # ts))
        = r @ replace_occurrences (needle n) r (render ts)"
      by (simp add: replace_match)
    with True IH show ?thesis by simp
  next
    case False
    with wf pf "3.prems"(2) have "take (length n) (m @ render ts) \<noteq> n"
      using name_no_overlap by blast
    then have "take (length (needle n)) (CHR ''/'' # (CHR '':'' # m) @ render ts) \<noteq> needle n"
      by (simp add: needle_def)
    moreover have "hd (needle n) \<notin> set (CHR '':'' # m)"
      using wf by (auto simp: needle_def name_ok_def list_all_iff)
    ultimately have "replace_occurrences (needle n) r (render (Ph m # ts))
        = needle m @ replace_occurrences (needle n) r (render ts)"
      by (simp add: needle_def replace_skip replace_append_nohead)
    with False IH show ?thesis by simp
  qed
next
  case (4 r' ts)
  from "4.prems" have wf: "r' = [] \<or> safe_sub r'" "seg_wf ts" by simp_all
  have "replace_occurrences (needle n) r (render (Sub r' # ts))
      = r' @ replace_occurrences (needle n) r (render ts)"
  proof (cases "r' = []")
    case False
    with wf obtain v where r': "r' = CHR ''/'' # v" and v: "safe_value v"
      by (auto simp: safe_sub_def split: list.splits)
    then have "\<not> colon_ident (v @ render ts)"
      by (cases v) (auto simp: colon_ident_def safe_value_def split: list.splits)
    then have "take (length (needle n)) (CHR ''/'' # v @ render ts) \<noteq> needle n"
      using needle_prefix "4.prems"(2) by blast
    moreover have "hd (needle n) \<notin> set v"
      using v by (simp add: needle_def safe_value_def)
    ultimately show ?thesis
      by (simp add: r' replace_skip replace_append_nohead)
  qed simp
  with "4.IH" wf "4.prems" show ?case by simp
qed simp

subsection \<open>Substitution keeps a segment list well formed\<close>

lemma colon_ident_Cons: "colon_ident (c # s) = (c = CHR '':'' \<and> starts_ident s)"
  by (cases s) (simp_all add: colon_ident_def starts_ident_def)

lemma slash_heads [simp]:
  "\<not> starts_ident (CHR ''/'' # s)" "\<not> colon_ident (CHR ''/'' # s)"
  by (simp_all add: starts_ident_def colon_ident_def split: list.splits)

lemma starts_ident_Cons: "starts_ident (c # s) = is_ident_char c"
  by (simp add: starts_ident_def)

lemma safe_sub_slash: "safe_sub r \<Longrightarrow> \<exists>v. r = CHR ''/'' # v \<and> safe_value v"
  by (simp add: safe_sub_def split: list.splits)

lemma heads_subst:
  "seg_wf ts \<Longrightarrow> safe_sub r \<Longrightarrow>
   starts_ident (render (map (subst_seg n r) ts)) = starts_ident (render ts) \<and>
   colon_ident (render (map (subst_seg n r) ts)) = colon_ident (render ts)"
proof (induction ts rule: seg_wf.induct)
  case (2 c ts)
  then show ?case by (simp add: colon_ident_Cons starts_ident_Cons)
next
  case (3 m ts)
  then show ?case
    by (auto simp: needle_def dest!: safe_sub_slash)
next
  case (4 r' ts)
  then show ?case
    by (auto dest!: safe_sub_slash)
qed simp

lemma wf_subst: "seg_wf ts \<Longrightarrow> safe_sub r \<Longrightarrow> seg_wf (map (subst_seg n r) ts)"
  by (induction ts rule: seg_wf.induct) (simp_all add: heads_subst)

lemma ph_names_subst: "ph_names (map (subst_seg n r) ts) = filter (\<lambda>m. m \<noteq> n) (ph_names ts)"
  by (induction ts rule: ph_names.induct) simp_all

subsection \<open>The substitution loop of \<open>to_url\<close>\<close>

text \<open>The guard \<open>if params_to_replace\<close> only skips an empty loop.\<close>

lemma to_url_fold:
  "to_url urltemplate params =
     fold (\<lambda>(nd, key) uri. case params key of None \<Rightarrow> uri | Some v \<Rightarrow> py_replace nd (CHR ''/'' # v) uri)
          (re_params_findall urltemplate) urltemplate"
  by (simp add: to_url_def Let_def)

lemma fold_replace_render:
  "seg_wf ts \<Longrightarrow> list_all name_ok ns \<Longrightarrow>
   list_all (\<lambda>n. list_all (\<lambda>m. \<not> strict_prefix n m) (ph_names ts)) ns \<Longrightarrow>
   list_all (\<lambda>n. case params n of None \<Rightarrow> True | Some v \<Rightarrow> safe_value v) ns \<Longrightarrow>
   fold (\<lambda>(nd, key) uri. case params key of None \<Rightarrow> uri | Some v \<Rightarrow> py_replace nd (CHR ''/'' # v) uri)
        (map (\<lambda>n. (needle n, n)) ns) (render ts)
   = render (fold (\<lambda>n ts. case params n of None \<Rightarrow> ts | Some v \<Rightarrow> map (subst_seg n (CHR ''/'' # v)) ts)
                  ns ts)"
proof (induction ns arbitrary: ts)
  case (Cons n ns)
  show ?case
  proof (cases "params n")
    case None
    with Cons show ?thesis by simp
  next
    case (Some v)
    let ?ts' = "map (subst_seg n (CHR ''/'' # v)) ts"
    have v: "safe_sub (CHR ''/'' # v)"
      using Cons.prems(4) Some by (simp add: safe_sub_def)
    have "py_replace (needle n) (CHR ''/'' # v) (render ts) = render ?ts'"
      using Cons.prems(1-3) by (simp add: replace_render)
    moreover have "seg_wf ?ts'"
      using Cons.prems(1) v by (rule wf_subst)
    moreover have "list_all (\<lambda>n. list_all (\<lambda>m. \<not> strict_prefix n m) (ph_names ?ts')) ns"
      using Cons.prems(3) by (auto simp: ph_names_subst list_all_iff)
    ultimately show ?thesis
      using Cons.IH [of ?ts'] Cons.prems Some by simp
  qed
qed simp

lemma fold_subst_resolve:
  "fold (\<lambda>n ts. case params n of None \<Rightarrow> ts | Some v \<Rightarrow> map (subst_seg n (CHR ''/'' # v)) ts) ns ts
   = map (\<lambda>x. if ph_in ns x then resolve_seg params x else x) ts"
proof (induction ns arbitrary: ts)
  case (Cons n ns)
  have point: "(case params n of None \<Rightarrow> x | Some v \<Rightarrow> subst_seg n (CHR ''/'' # v) x)
      = (if x = Ph n then resolve_seg params x else x)" for x
    by (cases x) (auto split: option.splits)
  have "(case params n of None \<Rightarrow> ts | Some v \<Rightarrow> map (subst_seg n (CHR ''/'' # v)) ts)
      = map (\<lambda>x. case params n of None \<Rightarrow> x | Some v \<Rightarrow> subst_seg n (CHR ''/'' # v) x) ts"
    by (cases "params n") simp_all
  also have "\<dots> = map (\<lambda>x. if x = Ph n then resolve_seg params x else x) ts"
    by (simp only: point)
  finally have step: "(case params n of None \<Rightarrow> ts | Some v \<Rightarrow> map (subst_seg n (CHR ''/'' # v)) ts)
      = map (\<lambda>x. if x = Ph n then resolve_seg params x else x) ts" .
  show ?case
    by (simp add: Cons.IH step) (auto elim!: ph_in.elims split: option.splits)
next
  case Nil
  have "\<not> ph_in [] x" for x
    by (cases x) simp_all
  then show ?case by simp
qed

lemma resolve_spec_scan: "resolve_spec urltemplate params = render (map (resolve_seg params) (scan urltemplate))"
  unfolding resolve_spec_def sub_scan render_def
  by (auto intro!: arg_cong [where f = concat] split: seg.splits option.splits simp: needle_def)

lemma template_names_scan: "template_names s = ph_names (scan s)"
  using findall_render [OF seg_wf_scan, of s] by (simp add: template_names_def render_scan comp_def)

lemma findall_scan: "re_params_findall s = map (\<lambda>n. (needle n, n)) (ph_names (scan s))"
  using findall_render [OF seg_wf_scan, of s] by (simp add: render_scan)

lemma wf_fold_subst:
  "seg_wf ts \<Longrightarrow> list_all (\<lambda>n. case params n of None \<Rightarrow> True | Some v \<Rightarrow> safe_value v) ns \<Longrightarrow>
   seg_wf (fold (\<lambda>n ts. case params n of None \<Rightarrow> ts | Some v \<Rightarrow> map (subst_seg n (CHR ''/'' # v)) ts) ns ts)"
proof (induction ns arbitrary: ts)
  case (Cons n ns)
  show ?case
  proof (cases "params n")
    case None
    with Cons show ?thesis by simp
  next
    case (Some v)
    with Cons.prems have "seg_wf (map (subst_seg n (CHR ''/'' # v)) ts)"
      by (simp add: wf_subst safe_sub_def)
    with Cons.IH Cons.prems Some show ?thesis by simp
  qed
qed simp

lemma ph_in_names: "Ph m \<in> set ts \<Longrightarrow> m \<in> set (ph_names ts)"
  by (induction ts rule: ph_names.induct) auto

lemma resolve_ph_in:
  "map (\<lambda>x. if ph_in (ph_names ts) x then resolve_seg params x else x) ts = map (resolve_seg params) ts"
proof (rule map_cong [OF refl])
  fix x assume x: "x \<in> set ts"
  show "(if ph_in (ph_names ts) x then resolve_seg params x else x) = resolve_seg params x"
  proof (cases x)
    case (Ph m)
    with x show ?thesis by (simp add: ph_in_names)
  qed simp_all
qed

lemma to_url_segments:
  assumes "prefix_free_names urltemplate" and "safe_params urltemplate params"
  shows "to_url urltemplate params = render (map (resolve_seg params) (scan urltemplate)) \<and>
         seg_wf (map (resolve_seg params) (scan urltemplate))"
proof -
  let ?ts = "scan urltemplate"
  let ?ns = "ph_names ?ts"
  let ?step = "\<lambda>n ts. case params n of None \<Rightarrow> ts | Some v \<Rightarrow> map (subst_seg n (CHR ''/'' # v)) ts"
  have names: "list_all name_ok ?ns"
    using seg_wf_name_ok [OF seg_wf_scan] by (simp add: list_all_iff)
  have pf: "list_all (\<lambda>n. list_all (\<lambda>m. \<not> strict_prefix n m) (ph_names ?ts)) ?ns"
    using assms(1) by (simp add: prefix_free_names_def template_names_scan)
  have safe: "list_all (\<lambda>n. case params n of None \<Rightarrow> True | Some v \<Rightarrow> safe_value v) ?ns"
    using assms(2) by (simp add: safe_params_def template_names_scan)
  have "to_url urltemplate params = render (fold ?step ?ns ?ts)"
    using fold_replace_render [OF seg_wf_scan names pf safe]
    by (simp add: to_url_fold findall_scan render_scan)
  moreover have "fold ?step ?ns ?ts = map (resolve_seg params) ?ts"
    by (simp add: fold_subst_resolve resolve_ph_in)
  moreover have "seg_wf (fold ?step ?ns ?ts)"
    using wf_fold_subst [OF seg_wf_scan safe] .
  ultimately show ?thesis by simp
qed

lemma ph_names_resolve:
  "ph_names (map (resolve_seg params) ts) = filter (\<lambda>n. params n = None) (ph_names ts)"
  by (induction ts rule: ph_names.induct) (auto split: option.splits)

subsection \<open>The loop of \<open>remove_parameters\<close>\<close>

text \<open>
  Removing a placeholder is the substitution of empty text; it keeps a segment
  list well formed as long as no placeholder follows a \<open>/\<close> directly.
\<close>

lemma slash_before_ph_tl: "\<not> slash_before_ph (x # ts) \<Longrightarrow> \<not> slash_before_ph ts"
  by (induction "x # ts" rule: slash_before_ph.induct) auto

lemma slash_before_ph_subst: "slash_before_ph (map (subst_seg n r) ts) = slash_before_ph ts"
  by (induction ts rule: slash_before_ph.induct) (auto split: if_splits)

lemma not_starts_ident_remove:
  "seg_wf ts \<Longrightarrow> \<not> starts_ident (render ts) \<Longrightarrow> \<not> starts_ident (render (map (subst_seg n []) ts))"
  by (induction ts rule: seg_wf.induct) (auto simp: starts_ident_Cons needle_def safe_sub_def split: list.splits)

lemma wf_remove:
  "seg_wf ts \<Longrightarrow> \<not> slash_before_ph ts \<Longrightarrow> seg_wf (map (subst_seg n []) ts)"
proof (induction ts rule: seg_wf.induct)
  case (2 c ts)
  have IH: "seg_wf (map (subst_seg n []) ts)"
    using 2 slash_before_ph_tl by simp
  have "\<not> (c = CHR ''/'' \<and> colon_ident (render (map (subst_seg n []) ts)))"
  proof (cases ts)
    case (Cons x ts')
    show ?thesis
    proof (cases x)
      case (Lit d)
      have "\<not> (c = CHR ''/'' \<and> d = CHR '':'' \<and> starts_ident (render ts'))"
        using "2.prems"(1) Cons Lit by (simp add: colon_ident_Cons)
      moreover have "seg_wf ts'" using "2.prems"(1) Cons Lit by simp
      ultimately show ?thesis
        using Cons Lit by (auto simp: colon_ident_Cons dest: not_starts_ident_remove)
    next
      case (Ph m)
      then show ?thesis using "2.prems"(2) Cons by auto
    next
      case (Sub r)
      then show ?thesis using "2.prems"(2) Cons by auto
    qed
  qed (simp add: colon_ident_def)
  with IH show ?case by simp
next
  case (3 m ts)
  then show ?case by (auto simp: not_starts_ident_remove slash_before_ph_tl)
next
  case (4 r ts)
  then show ?case by (auto simp: slash_before_ph_tl)
qed simp

lemma fold_remove_render:
  "seg_wf ts \<Longrightarrow> \<not> slash_before_ph ts \<Longrightarrow> list_all name_ok ns \<Longrightarrow>
   list_all (\<lambda>n. list_all (\<lambda>m. \<not> strict_prefix n m) (ph_names ts)) ns \<Longrightarrow>
   fold (\<lambda>(nd, key) uri. py_replace nd [] uri) (map (\<lambda>n. (needle n, n)) ns) (render ts)
   = render (fold (\<lambda>n ts. map (subst_seg n []) ts) ns ts)"
proof (induction ns arbitrary: ts)
  case (Cons n ns)
  let ?ts' = "map (subst_seg n []) ts"
  have "py_replace (needle n) [] (render ts) = render ?ts'"
    using Cons.prems(1,3,4) by (simp add: replace_render)
  moreover have "seg_wf ?ts'" using Cons.prems(1,2) by (rule wf_remove)
  moreover have "\<not> slash_before_ph ?ts'" using Cons.prems(2) by (simp add: slash_before_ph_subst)
  moreover have "list_all (\<lambda>n. list_all (\<lambda>m. \<not> strict_prefix n m) (ph_names ?ts')) ns"
    using Cons.prems(4) by (auto simp: ph_names_subst list_all_iff)
  ultimately show ?case
    using Cons.IH [of ?ts'] Cons.prems(3) by simp
qed simp

lemma fold_remove_segments:
  "fold (\<lambda>n ts. map (subst_seg n []) ts) ns ts = map (\<lambda>x. if ph_in ns x then Sub [] else x) ts"
proof (induction ns arbitrary: ts)
  case Nil
  have "\<not> ph_in [] x" for x by (cases x) simp_all
  then show ?case by simp
next
  case (Cons n ns)
  have "(if ph_in ns (subst_seg n [] x) then Sub [] else subst_seg n [] x)
      = (if ph_in (n # ns) x then Sub [] else x)" for x
    by (cases x) simp_all
  then show ?case by (simp add: Cons.IH)
qed

section \<open>Properties of \<open>to_url\<close>\<close>

text \<open>
  C1. When no placeholder name of the template is a proper prefix of another and
  every supplied value is non-empty, contains no \<open>/\<close> and does not start with
  \<open>:\<close>, \<open>to_url\<close> (one \<open>str.replace\<close> per placeholder) computes the single-pass
  substitution of the spec: each placeholder with a value becomes \<open>/value\<close>, the
  others stay as they are.
\<close>

theorem to_url_resolves:
  assumes "prefix_free_names urltemplate" and "safe_params urltemplate params"
  shows "to_url urltemplate params = resolve_spec urltemplate params"
  using to_url_segments [OF assms] by (simp add: resolve_spec_scan)

theorem to_url_resolves_witness:
  "prefix_free_names ''/users/:id/posts/:post_id'' \<and>
   safe_params ''/users/:id/posts/:post_id'' [''id'' \<mapsto> ''5'', ''post_id'' \<mapsto> ''7''] \<and>
   to_url ''/users/:id/posts/:post_id'' [''id'' \<mapsto> ''5'', ''post_id'' \<mapsto> ''7''] = ''/users/5/posts/7''"
proof -
  have pf: "prefix_free_names ''/users/:id/posts/:post_id''" by code_simp
  have sp: "safe_params ''/users/:id/posts/:post_id'' [''id'' \<mapsto> ''5'', ''post_id'' \<mapsto> ''7'']"
    by code_simp
  have "resolve_spec ''/users/:id/posts/:post_id'' [''id'' \<mapsto> ''5'', ''post_id'' \<mapsto> ''7'']
      = ''/users/5/posts/7''" by code_simp
  with to_url_resolves [OF pf sp] pf sp show ?thesis by simp
qed

lemma findall_to_url:
  assumes "prefix_free_names urltemplate" and "safe_params urltemplate params"
  shows "re_params_findall (to_url urltemplate params)
         = filter (\<lambda>(nd, n). params n = None) (re_params_findall urltemplate)"
proof -
  have "re_params_findall (to_url urltemplate params)
      = map (\<lambda>n. (needle n, n)) (ph_names (map (resolve_seg params) (scan urltemplate)))"
    using to_url_segments [OF assms] findall_render by simp
  then show ?thesis
    by (simp add: ph_names_resolve findall_scan filter_map comp_def)
qed

text \<open>
  C2. Under the same conditions the placeholders left in the result are exactly
  those of the template whose key is missing from the parameters, in template
  order: a missing key is skipped silently, never reported.
\<close>

theorem to_url_unresolved:
  assumes "prefix_free_names urltemplate" and "safe_params urltemplate params"
  shows "re_params_findall (to_url urltemplate params)
         = filter (\<lambda>(nd, n). params n = None) (re_params_findall urltemplate)"
  using findall_to_url [OF assms] .

theorem to_url_unresolved_witness:
  "prefix_free_names ''/users/:id/posts/:post_id'' \<and>
   safe_params ''/users/:id/posts/:post_id'' [''id'' \<mapsto> ''5''] \<and>
   re_params_findall (to_url ''/users/:id/posts/:post_id'' [''id'' \<mapsto> ''5''])
     = [(''/:post_id'', ''post_id'')]"
proof -
  have pf: "prefix_free_names ''/users/:id/posts/:post_id''" by code_simp
  have sp: "safe_params ''/users/:id/posts/:post_id'' [''id'' \<mapsto> ''5'']" by code_simp
  have "re_params_findall (to_url ''/users/:id/posts/:post_id'' [''id'' \<mapsto> ''5''])
      = filter (\<lambda>(nd, n). [''id'' \<mapsto> ''5''] n = None) (re_params_findall ''/users/:id/posts/:post_id'')"
    by (rule to_url_unresolved [OF pf sp])
  also have "\<dots> = [(''/:post_id'', ''post_id'')]" by code_simp
  finally show ?thesis using pf sp by blast
qed

text \<open>
  C3. Without the prefix condition \<open>to_url\<close> is wrong: \<open>str.replace\<close> of the
  needle \<open>/:id\<close> also rewrites the first three characters of \<open>/:idx\<close>, so the
  second placeholder is corrupted instead of resolved.
\<close>

theorem to_url_prefix_clash:
  "to_url ''/:id/:idx'' [''id'' \<mapsto> ''5'', ''idx'' \<mapsto> ''7''] = ''/5/5x'' \<and>
   resolve_spec ''/:id/:idx'' [''id'' \<mapsto> ''5'', ''idx'' \<mapsto> ''7''] = ''/5/7''"
  by code_simp

section \<open>Properties of \<open>remove_parameters\<close>\<close>

text \<open>
  C4. The spec states that \<open>stripParameters(T)\<close> never contains \<open>/:\<close>. The code
  removes each needle with \<open>str.replace\<close>, and removing one can join a \<open>/\<close> before
  it with a \<open>:name\<close> after it into a new placeholder.
\<close>

theorem remove_parameters_leaves_placeholder:
  "remove_parameters ''//:a:b'' = ''/:b'' \<and>
   re_params_findall (remove_parameters ''//:a:b'') = [(''/:b'', ''b'')]"
  by code_simp

text \<open>
  C18. Without the clash of C4, \<open>remove_parameters\<close> is the one-pass strip
  \<open>RE_PARAMS.sub('', urltemplate)\<close>: when no placeholder name is a proper prefix
  of another and no placeholder follows a \<open>/\<close> directly, the loop of
  \<open>str.replace\<close> calls removes exactly the placeholders and keeps every other
  character.
\<close>

theorem remove_parameters_strips:
  assumes "prefix_free_names urltemplate" and "\<not> slash_before_ph (scan urltemplate)"
  shows "remove_parameters urltemplate = re_params_sub (\<lambda>n. []) urltemplate"
proof -
  let ?ts = "scan urltemplate"
  let ?ns = "ph_names ?ts"
  have names: "list_all name_ok ?ns"
    using seg_wf_name_ok [OF seg_wf_scan] by (simp add: list_all_iff)
  have pf: "list_all (\<lambda>n. list_all (\<lambda>m. \<not> strict_prefix n m) (ph_names ?ts)) ?ns"
    using assms(1) by (simp add: prefix_free_names_def template_names_scan)
  have "remove_parameters urltemplate = render (fold (\<lambda>n ts. map (subst_seg n []) ts) ?ns ?ts)"
    using fold_remove_render [OF seg_wf_scan assms(2) names pf]
    by (simp add: remove_parameters_def findall_scan render_scan)
  also have "\<dots> = render (map (\<lambda>x. if ph_in ?ns x then Sub [] else x) ?ts)"
    by (simp only: fold_remove_segments)
  also have "\<dots> = concat (map (\<lambda>x. case x of Ph n \<Rightarrow> [] | _ \<Rightarrow> seg_text x) ?ts)"
    unfolding render_def by (auto intro!: arg_cong [where f = concat] simp: ph_in_names split: seg.splits)
  also have "\<dots> = re_params_sub (\<lambda>n. []) urltemplate"
    by (simp only: sub_scan)
  finally show ?thesis .
qed

theorem remove_parameters_strips_witness:
  "prefix_free_names ''/users/:id/posts/:post_id'' \<and> \<not> slash_before_ph (scan ''/users/:id/posts/:post_id'') \<and>
   remove_parameters ''/users/:id/posts/:post_id'' = ''/users/posts''"
proof -
  have pf: "prefix_free_names ''/users/:id/posts/:post_id''" by code_simp
  have sl: "\<not> slash_before_ph (scan ''/users/:id/posts/:post_id'')" by code_simp
  have "re_params_sub (\<lambda>n. []) ''/users/:id/posts/:post_id'' = ''/users/posts''" by code_simp
  with remove_parameters_strips [OF pf sl] pf sl show ?thesis by simp
qed


section \<open>Bounds\<close>

text \<open>
  C21. Each match of \<open>RE_PARAMS\<close> consumes at least the three characters
  \<open>/:x\<close>, so \<open>findall\<close> returns at most a third as many placeholders as the
  template has characters, and the loops of \<open>to_url\<close> and
  \<open>remove_parameters\<close> call \<open>str.replace\<close> at most that often.
\<close>

theorem re_params_findall_bound: "3 * length (re_params_findall s) \<le> length s"
proof (induction s rule: re_params_findall.induct)
  case (4 c d e t)
  have "length (dropWhile is_ident_char t) \<le> length t" by (rule length_dropWhile_le)
  with 4 show ?case by (auto simp: Let_def)
qed simp_all

end
