(* ===== verification/Context_Model.thy ===== *)
theory Context_Model
  imports Resource Urltemplate
begin

text \<open>
  Model of \<open>src/restosaur/context.py\<close> without its factory methods (those are
  in \<open>Context_Factories\<close>, since they build responses): the per-request
  \<open>Context\<close> object, \<open>build_absolute_uri\<close> and \<open>deserialized\<close>, and the
  linked resource's \<open>uri\<close> (from the spec), which resolves the linked
  resource's template with \<open>to_url\<close> and makes it absolute through the request.

  The request is Django's \<open>HttpRequest\<close>; the sources call only its
  \<open>build_absolute_uri(location)\<close>, so a request is that function. The response
  code reads \<open>context.parameters\<close>, an attribute that \<open>Context.__init__\<close> does
  not create: the field is \<open>None\<close> while the attribute is absent and
  \<open>Some params\<close> once other code has assigned it.
\<close>

record request =
  req_build_absolute_uri :: "string \<Rightarrow> string"

record Context =
  ctx_headers :: "(string \<times> string) list"
  ctx_request :: request
  ctx_body :: json
  ctx_resource :: resource
  ctx_deserializer :: "string option"
  ctx_content_type :: "string option"
  ctx_parameters :: "(string \<rightharpoonup> string) option"

definition context_init :: "request \<Rightarrow> resource \<Rightarrow> json \<Rightarrow> Context" where
  "context_init request resource body =
     \<lparr>ctx_headers = [], ctx_request = request, ctx_body = body, ctx_resource = resource,
      ctx_deserializer = None, ctx_content_type = None, ctx_parameters = None\<rparr>"

definition build_absolute_uri :: "Context \<Rightarrow> string \<Rightarrow> string" where
  "build_absolute_uri ctx path = req_build_absolute_uri (ctx_request ctx) path"

definition deserialized :: "Context \<Rightarrow> json" where
  "deserialized ctx = ctx_body ctx"

text \<open>\<open>linked_resource.uri(context, params)\<close>, from the spec.\<close>

definition resource_uri :: "Context \<Rightarrow> linked_resource \<Rightarrow> (string \<rightharpoonup> string) \<Rightarrow> string" where
  "resource_uri ctx linked params = build_absolute_uri ctx (to_url (lr_path linked) params)"

end
