(* ===== verification/Http_Date.thy ===== *)
theory Http_Date
  imports Restosaur_Prelude
begin

text \<open>
  Library semantics used by \<open>Response.set_last_modified\<close>: Django's
  \<open>http_date(epoch_seconds)\<close>, which formats a Unix time as an RFC 7231
  IMF-fixdate (\<open>email.utils.formatdate(..., usegmt=True)\<close>), for example
  \<open>Tue, 15 Nov 1994 08:12:31 GMT\<close>. A \<open>datetime\<close> of the sources is modelled
  by the Unix time \<open>times.to_unix\<close> gives for it, so \<open>http_date\<close> receives
  that number. The calendar conversion is the proleptic Gregorian one
  (days since 1970-01-01 to year, month, day).
\<close>

definition civil_from_days :: "int \<Rightarrow> int \<times> int \<times> int" where
  "civil_from_days days =
     (let z = days + 719468;
          era = z div 146097;
          doe = z - era * 146097;
          yoe = (doe - doe div 1460 + doe div 36524 - doe div 146096) div 365;
          doy = doe - (365 * yoe + yoe div 4 - yoe div 100);
          mp = (5 * doy + 2) div 153;
          d = doy - (153 * mp + 2) div 5 + 1;
          m = (if mp < 10 then mp + 3 else mp - 9);
          y = yoe + era * 400
      in (if m \<le> 2 then y + 1 else y, m, d))"

definition digit :: "int \<Rightarrow> char" where
  "digit k = char_of (48 + nat k)"

fun dec_string :: "nat \<Rightarrow> string" where
  "dec_string n = (if n < 10 then [digit (int n)] else dec_string (n div 10) @ [digit (int (n mod 10))])"

definition pad2 :: "int \<Rightarrow> string" where
  "pad2 n = [digit (n div 10), digit (n mod 10)]"

definition pad4 :: "int \<Rightarrow> string" where
  "pad4 n = (let s = dec_string (nat n) in replicate (4 - length s) CHR ''0'' @ s)"

definition day_name :: "int \<Rightarrow> string" where
  "day_name w = [''Sun'', ''Mon'', ''Tue'', ''Wed'', ''Thu'', ''Fri'', ''Sat''] ! nat (w mod 7)"

definition month_name :: "int \<Rightarrow> string" where
  "month_name m = [''Jan'', ''Feb'', ''Mar'', ''Apr'', ''May'', ''Jun'',
                   ''Jul'', ''Aug'', ''Sep'', ''Oct'', ''Nov'', ''Dec''] ! nat (m - 1)"

definition http_date :: "int \<Rightarrow> string" where
  "http_date t =
     (let days = t div 86400; secs = t mod 86400;
          (y, m, d) = civil_from_days days
      in day_name (days + 4) @ '', '' @ pad2 d @ '' '' @ month_name m @ '' '' @ pad4 y @ '' '' @
         pad2 (secs div 3600) @ '':'' @ pad2 (secs mod 3600 div 60) @ '':'' @ pad2 (secs mod 60) @
         '' GMT'')"

lemma http_date_rfc1123_example: "http_date 784887151 = ''Tue, 15 Nov 1994 08:12:31 GMT''"
  by code_simp

lemma http_date_epoch: "http_date 0 = ''Thu, 01 Jan 1970 00:00:00 GMT''"
  by code_simp

end
