(* ===== verification/Responses.thy ===== *)
theory Responses
  imports Context_Model Http_Date
begin

text \<open>
  Model of \<open>src/restosaur/responses.py\<close>. A response object is a record; its
  Python class is the field \<open>resp_class\<close>, whose \<open>CollectionResponse\<close> tag
  carries the two attributes that class adds (\<open>key\<close>, \<open>totalCount\<close>).
  Constructors return the new record, \<open>set_last_modified\<close> returns the updated
  one, and serialisation returns the payload together with the response as it
  is afterwards: \<open>_add_links\<close> updates the links dictionary in place, and when
  that dictionary came from the caller's \<open>extra\<close> the update is visible in
  \<open>self.extra\<close> (the model records it there; the same aliasing of a
  dictionary the converter returns is not modelled). Exceptions are \<open>Inl\<close>.
\<close>

datatype resp_class =
    Response
  | CreatedResponse
  | NoContentResponse
  | NotModifiedResponse
  | UnauthorizedResponse
  | ForbiddenResponse
  | NotFoundResponse
  | MethodNotAllowedResponse
  | CollectionResponse string "int option"
  | EntityResponse
  | NotAcceptableResponse
  | ValidationErrorResponse

fun is_collection :: "resp_class \<Rightarrow> bool" where
  "is_collection (CollectionResponse k t) = True"
| "is_collection _ = False"

record response =
  resp_headers :: "(string \<times> string) list"
  resp_representation :: "string option"
  resp_content_type :: "string option"
  resp_context :: Context
  resp_status :: int
  resp_extra :: json
  resp_links_key :: string
  resp_add_links :: bool
  resp_data :: json
  resp_class :: resp_class

section \<open>Headers\<close>

text \<open>
  \<open>set_last_modified(dt)\<close>: a \<open>datetime\<close> (always true) sets
  \<open>Last-Modified\<close> to \<open>http_date(times.to_unix(dt))\<close>, \<open>None\<close> removes it.
  A \<open>datetime\<close> is given by its Unix time.
\<close>

definition set_last_modified :: "int option \<Rightarrow> response \<Rightarrow> response" where
  "set_last_modified dt r =
     (case dt of
        Some t \<Rightarrow> r\<lparr>resp_headers := AList.update ''Last-Modified'' (http_date t) (resp_headers r)\<rparr>
      | None \<Rightarrow> r\<lparr>resp_headers := AList.delete ''Last-Modified'' (resp_headers r)\<rparr>)"

section \<open>Constructors\<close>

definition response_init ::
  "Context \<Rightarrow> json \<Rightarrow> int \<Rightarrow> (string \<times> string) list option \<Rightarrow> int option \<Rightarrow> json \<Rightarrow> bool \<Rightarrow> string
   \<Rightarrow> response" where
  "response_init ctx data status headers last_modified extra add_links links_key =
     (let r = \<lparr>resp_headers = dict_update [] (case headers of None \<Rightarrow> [] | Some h \<Rightarrow> h),
               resp_representation = None, resp_content_type = None, resp_context = ctx,
               resp_status = status, resp_extra = extra, resp_links_key = links_key,
               resp_add_links = add_links, resp_data = data, resp_class = Response\<rparr>
      in if last_modified \<noteq> None then set_last_modified last_modified r else r)"

definition created_response :: "Context \<Rightarrow> json \<Rightarrow> (string \<times> string) list option \<Rightarrow> response" where
  "created_response ctx data headers =
     (response_init ctx data 201 headers None JNone True ''_links'')\<lparr>resp_class := CreatedResponse\<rparr>"

definition no_content_response :: "Context \<Rightarrow> json \<Rightarrow> (string \<times> string) list option \<Rightarrow> response" where
  "no_content_response ctx data headers =
     (response_init ctx data 204 headers None JNone True ''_links'')\<lparr>resp_class := NoContentResponse\<rparr>"

definition not_modified_response :: "Context \<Rightarrow> json \<Rightarrow> (string \<times> string) list option \<Rightarrow> response" where
  "not_modified_response ctx data headers =
     (response_init ctx data 304 headers None JNone True ''_links'')\<lparr>resp_class := NotModifiedResponse\<rparr>"

definition unauthorized_response :: "Context \<Rightarrow> json \<Rightarrow> (string \<times> string) list option \<Rightarrow> response" where
  "unauthorized_response ctx data headers =
     (response_init ctx data 401 headers None JNone True ''_links'')\<lparr>resp_class := UnauthorizedResponse\<rparr>"

definition forbidden_response :: "Context \<Rightarrow> json \<Rightarrow> (string \<times> string) list option \<Rightarrow> response" where
  "forbidden_response ctx data headers =
     (response_init ctx data 403 headers None JNone True ''_links'')\<lparr>resp_class := ForbiddenResponse\<rparr>"

definition not_found_response :: "Context \<Rightarrow> json \<Rightarrow> (string \<times> string) list option \<Rightarrow> response" where
  "not_found_response ctx data headers =
     (response_init ctx data 404 headers None JNone True ''_links'')\<lparr>resp_class := NotFoundResponse\<rparr>"

definition method_not_allowed_response ::
  "Context \<Rightarrow> json \<Rightarrow> (string \<times> string) list option \<Rightarrow> response" where
  "method_not_allowed_response ctx data headers =
     (response_init ctx data 405 headers None JNone True ''_links'')\<lparr>resp_class := MethodNotAllowedResponse\<rparr>"

text \<open>
  \<open>CollectionResponse(context, iterable, totalCount=None, key=None, **kwargs)\<close>:
  the remaining keyword arguments of \<open>Response.__init__\<close> are passed on, and
  \<open>key or 'items'\<close> replaces a missing or empty key.
\<close>

definition collection_response ::
  "Context \<Rightarrow> json \<Rightarrow> int option \<Rightarrow> string option \<Rightarrow> int \<Rightarrow> (string \<times> string) list option \<Rightarrow>
   int option \<Rightarrow> json \<Rightarrow> bool \<Rightarrow> string \<Rightarrow> response" where
  "collection_response ctx iterable totalCount key status headers last_modified extra add_links links_key =
     (let r = response_init ctx iterable status headers last_modified extra add_links links_key;
          k = (case key of None \<Rightarrow> ''items'' | Some s \<Rightarrow> if s = [] then ''items'' else s)
      in r\<lparr>resp_class := CollectionResponse k totalCount\<rparr>)"

definition entity_response ::
  "Context \<Rightarrow> json \<Rightarrow> int \<Rightarrow> (string \<times> string) list option \<Rightarrow> int option \<Rightarrow> json \<Rightarrow> bool \<Rightarrow> string
   \<Rightarrow> response" where
  "entity_response ctx data status headers last_modified extra add_links links_key =
     (response_init ctx data status headers last_modified extra add_links links_key)
       \<lparr>resp_class := EntityResponse\<rparr>"

definition not_acceptable_response :: "Context \<Rightarrow> (string \<times> string) list option \<Rightarrow> response" where
  "not_acceptable_response ctx headers =
     (response_init ctx JNone 406 headers None JNone True ''_links'')\<lparr>resp_class := NotAcceptableResponse\<rparr>"

definition validation_error_response ::
  "Context \<Rightarrow> json \<Rightarrow> (string \<times> string) list option \<Rightarrow> response" where
  "validation_error_response ctx errors headers =
     (let resp = JDict [(''errors'', errors)]
      in (response_init ctx resp 422 headers None JNone True ''_links'')
           \<lparr>resp_class := ValidationErrorResponse\<rparr>)"

section \<open>Serialisation\<close>

text \<open>\<open>get_converter(representation)\<close>: the declared converter, or the identity.\<close>

definition get_converter :: "response \<Rightarrow> string \<Rightarrow> json \<Rightarrow> json" where
  "get_converter r representation =
     (case representations (ctx_resource (resp_context r)) representation of
        Some converter \<Rightarrow> converter
      | None \<Rightarrow> (\<lambda>x. x))"

text \<open>
  \<open>_serialize_links()\<close>: when links are wanted and the resource declares some,
  one entry per declared link with the linked resource's URI for
  \<open>context.parameters\<close> and the upper-cased method. Reading
  \<open>context.parameters\<close> raises \<open>AttributeError\<close> while the attribute is absent.
\<close>

definition serialize_links :: "response \<Rightarrow> dict result" where
  "serialize_links r =
     (let ctx = resp_context r; links = res_links (ctx_resource ctx)
      in if resp_add_links r \<and> links \<noteq> []
         then (case ctx_parameters ctx of
                 None \<Rightarrow> Inl AttributeError
               | Some params \<Rightarrow>
                   Inr (fold (\<lambda>(key, method, linked) acc.
                          AList.update key
                            (JDict [(''uri'', JStr (resource_uri ctx linked params)),
                                    (''method'', JStr (py_upper method))]) acc)
                        links []))
         else Inr [])"

text \<open>
  \<open>_add_links(resp)\<close>: create an empty dictionary under the links key if there
  is none, then \<open>resp[links_key].update(links)\<close>; a value there that is not a
  dictionary has no \<open>update\<close> (\<open>AttributeError\<close>).
\<close>

definition add_links :: "response \<Rightarrow> dict \<Rightarrow> dict result" where
  "add_links r resp =
     (let lk = resp_links_key r;
          resp = (if map_of resp lk = None then AList.update lk (JDict []) resp else resp)
      in case map_of resp lk of
           Some (JDict cur) \<Rightarrow>
             bind_result (serialize_links r) (\<lambda>links. Inr (AList.update lk (JDict (dict_update cur links)) resp))
         | _ \<Rightarrow> Inl AttributeError)"

text \<open>
  The dictionary that \<open>_add_links\<close> updated in place is \<open>extra[links_key]\<close> when
  \<open>extra\<close> is a dictionary holding that key and no later update replaced it
  (\<open>shadow\<close>: the keys written after \<open>extra\<close>); \<open>self.extra\<close> then shows the
  merged links.
\<close>

definition alias_links :: "string \<Rightarrow> string list \<Rightarrow> json \<Rightarrow> dict \<Rightarrow> json" where
  "alias_links lk shadow extra out =
     (case extra of
        JDict e \<Rightarrow>
          (if lk \<notin> set shadow \<and> map_of e lk \<noteq> None
           then (case map_of out lk of Some v \<Rightarrow> JDict (AList.update lk v e) | None \<Rightarrow> extra)
           else extra)
      | _ \<Rightarrow> extra)"

text \<open>
  \<open>Response.serialize(data, representation)\<close>. The empty string is returned as
  \<open>JStr []\<close>.
\<close>

definition serialize :: "response \<Rightarrow> json \<Rightarrow> string \<Rightarrow> (json \<times> response) result" where
  "serialize r data representation =
     (if data = JNone \<and> \<not> truthy (resp_extra r) then Inr (JStr [], r)
      else if 200 \<le> resp_status r \<and> resp_status r < 300 then
        bind_result (as_mapping (py_or (resp_extra r) (JDict []))) (\<lambda>ex.
        bind_result (as_mapping (convert (ctx_resource (resp_context r)) data representation)) (\<lambda>c.
        bind_result (add_links r (dict_update (dict_update [] ex) c)) (\<lambda>out.
        Inr (JDict out, r\<lparr>resp_extra := alias_links (resp_links_key r) (map fst c) (resp_extra r) out\<rparr>))))
      else Inr (data, r))"

text \<open>\<open>CollectionResponse.serialize(iterable, representation)\<close>.\<close>

definition collection_serialize ::
  "response \<Rightarrow> string \<Rightarrow> int option \<Rightarrow> json \<Rightarrow> string \<Rightarrow> (json \<times> response) result" where
  "collection_serialize r key totalCount iterable representation =
     bind_result (py_iter iterable) (\<lambda>items.
       (let res = ctx_resource (resp_context r);
            resp = AList.update ''totalCount''
                     (JInt (case totalCount of Some n \<Rightarrow> n | None \<Rightarrow> int (length items)))
                     (AList.update key (JList (map (\<lambda>x. convert res x representation) items)) [])
        in bind_result (as_mapping (py_or (resp_extra r) (JDict []))) (\<lambda>ex.
           bind_result (add_links r (dict_update resp ex)) (\<lambda>out.
           Inr (JDict out, r\<lparr>resp_extra := alias_links (resp_links_key r) [] (resp_extra r) out\<rparr>)))))"

text \<open>Method dispatch: \<open>CollectionResponse\<close> overrides \<open>serialize\<close>.\<close>

definition response_serialize :: "response \<Rightarrow> json \<Rightarrow> string \<Rightarrow> (json \<times> response) result" where
  "response_serialize r data representation =
     (case resp_class r of
        CollectionResponse key totalCount \<Rightarrow> collection_serialize r key totalCount data representation
      | _ \<Rightarrow> serialize r data representation)"

section \<open>The envelope a successful serialisation promises\<close>

text \<open>
  The abstract contract of serialisation, read as maps: the items of \<open>extra\<close>,
  overridden by the converted data (for a collection: the items list and the
  count, overridden by \<open>extra\<close>), and under the links key the dictionary that
  was there (or an empty one) merged with the generated links.
\<close>

fun slot_ok :: "json option \<Rightarrow> bool" where
  "slot_ok None = True"
| "slot_ok (Some (JDict p)) = True"
| "slot_ok (Some _) = False"

fun slot_dict :: "json option \<Rightarrow> dict" where
  "slot_dict (Some (JDict p)) = p"
| "slot_dict _ = []"

definition with_links :: "(string \<rightharpoonup> json) \<Rightarrow> string \<Rightarrow> dict \<Rightarrow> (string \<rightharpoonup> json)" where
  "with_links m lk links = m(lk \<mapsto> JDict (dict_update (slot_dict (m lk)) links))"

definition envelope :: "dict \<Rightarrow> dict \<Rightarrow> string \<Rightarrow> dict \<Rightarrow> (string \<rightharpoonup> json)" where
  "envelope ex c lk links = with_links (map_of (rev ex) ++ map_of (rev c)) lk links"

definition collection_envelope ::
  "string \<Rightarrow> json list \<Rightarrow> int \<Rightarrow> dict \<Rightarrow> string \<Rightarrow> dict \<Rightarrow> (string \<rightharpoonup> json)" where
  "collection_envelope key items count ex lk links =
     with_links ([key \<mapsto> JList items, ''totalCount'' \<mapsto> JInt count] ++ map_of (rev ex)) lk links"

section \<open>An example request\<close>

text \<open>
  A small configuration for the witnesses: a resource at \<open>/items/:id\<close> without
  representations that declares one link \<open>other\<close> (GET \<open>/other/:id\<close>), a
  request on \<open>http://testserver\<close>, and a context whose \<open>parameters\<close> have been
  assigned.
\<close>

definition demo_resource :: resource where
  "demo_resource =
     \<lparr>res_path = ''/items/:id'', representations = Map.empty,
      res_links = [(''other'', ''get'', \<lparr>lr_path = ''/other/:id''\<rparr>)]\<rparr>"

definition demo_request :: request where
  "demo_request = \<lparr>req_build_absolute_uri = (\<lambda>p. ''http://testserver'' @ p)\<rparr>"

definition demo_context :: Context where
  "demo_context = (context_init demo_request demo_resource JNone)\<lparr>ctx_parameters := Some [''id'' \<mapsto> ''5'']\<rparr>"

lemmas demo_defs = demo_resource_def demo_request_def demo_context_def context_init_def

section \<open>Lemmas on constructors\<close>

text \<open>\<open>set_last_modified\<close> writes the headers only.\<close>

lemma response_init_fields [simp]:
  "resp_context (response_init ctx data status headers lm extra al lk) = ctx"
  "resp_status (response_init ctx data status headers lm extra al lk) = status"
  "resp_extra (response_init ctx data status headers lm extra al lk) = extra"
  "resp_links_key (response_init ctx data status headers lm extra al lk) = lk"
  "resp_add_links (response_init ctx data status headers lm extra al lk) = al"
  "resp_data (response_init ctx data status headers lm extra al lk) = data"
  "resp_class (response_init ctx data status headers lm extra al lk) = Response"
  by (cases lm; simp add: response_init_def set_last_modified_def)+

lemma context_init_fields [simp]:
  "ctx_resource (context_init req res body) = res"
  "ctx_parameters (context_init req res body) = None"
  "ctx_body (context_init req res body) = body"
  by (simp_all add: context_init_def)

section \<open>Lemmas on the links block\<close>

lemma add_links_ok:
  assumes "serialize_links r = Inr links" and "slot_ok (map_of resp (resp_links_key r))"
  shows "\<exists>out. add_links r resp = Inr out \<and> map_of out = with_links (map_of resp) (resp_links_key r) links"
proof (cases "map_of resp (resp_links_key r)")
  case None
  with assms(1) show ?thesis
    by (simp add: add_links_def with_links_def update_conv')
next
  case (Some v)
  with assms obtain p where "v = JDict p"
    by (cases v) simp_all
  with Some assms(1) show ?thesis
    by (simp add: add_links_def with_links_def update_conv')
qed

lemma add_links_slot_error:
  "\<not> slot_ok (map_of resp (resp_links_key r)) \<Longrightarrow> add_links r resp = Inl AttributeError"
  by (cases "map_of resp (resp_links_key r)" rule: slot_ok.cases) (simp_all add: add_links_def)

lemma add_links_links_error:
  "slot_ok (map_of resp (resp_links_key r)) \<Longrightarrow> serialize_links r = Inl e \<Longrightarrow> add_links r resp = Inl e"
  by (cases "map_of resp (resp_links_key r)" rule: slot_ok.cases) (simp_all add: add_links_def update_conv')

lemma keys_fold_update:
  "fst ` set (fold (\<lambda>(key, method, linked) acc. AList.update key (f key method linked) acc) ls acc)
   = fst ` set acc \<union> fst ` set ls"
proof (induction ls arbitrary: acc)
  case (Cons a ls)
  obtain k m l where a: "a = (k, m, l)" by (cases a) auto
  show ?case
    using Cons.IH [of "AList.update k (f k m l) acc"] by (auto simp: a dom_update)
qed simp

lemma serialize_links_keys:
  assumes "resp_add_links r" and "ctx_parameters (resp_context r) = Some params"
  shows "\<exists>links. serialize_links r = Inr links \<and>
           set (map fst links) = set (map fst (res_links (ctx_resource (resp_context r))))"
  using assms by (simp add: serialize_links_def Let_def keys_fold_update)

lemma map_of_output: "map_of (dict_update (dict_update [] ex) c) = map_of (rev ex) ++ map_of (rev c)"
  by (simp add: map_of_dict_update)

lemma fold_links_dict_update:
  "fold (\<lambda>(key, method, linked) acc. AList.update key (f key method linked) acc) ls acc
   = dict_update acc (map (\<lambda>(key, method, linked). (key, f key method linked)) ls)"
proof (induction ls arbitrary: acc)
  case (Cons a ls)
  then show ?case by (cases a) simp
qed simp

lemma serialize_links_entry:
  assumes "resp_add_links r" and "ctx_parameters (resp_context r) = Some params"
    and "distinct (map fst (res_links (ctx_resource (resp_context r))))"
    and "(key, method, linked) \<in> set (res_links (ctx_resource (resp_context r)))"
  shows "\<exists>links. serialize_links r = Inr links \<and>
           map_of links key = Some (JDict [(''uri'', JStr (resource_uri (resp_context r) linked params)),
                                           (''method'', JStr (py_upper method))])"
proof -
  let ?ls = "res_links (ctx_resource (resp_context r))"
  let ?g = "\<lambda>(key, method, linked). (key, JDict [(''uri'', JStr (resource_uri (resp_context r) linked params)),
                                                (''method'', JStr (py_upper method))])"
  have d: "distinct (map fst (map ?g ?ls))"
    using assms(3) by (simp add: comp_def case_prod_beta)
  have "map_of (map ?g ?ls) key = Some (snd (?g (key, method, linked)))"
    using assms(3,4) by (force intro: map_of_is_SomeI simp: comp_def case_prod_beta)
  then have "map_of (dict_update [] (map ?g ?ls)) key = Some (snd (?g (key, method, linked)))"
    using d by (simp add: map_of_dict_update map_of_rev_distinct)
  moreover have "?ls \<noteq> []" using assms(4) by auto
  ultimately show ?thesis
    using assms(1,2) by (simp add: serialize_links_def Let_def fold_links_dict_update)
qed

section \<open>Lemmas on serialisation\<close>

lemma serialize_success:
  assumes "200 \<le> resp_status r" and "resp_status r < 300"
    and "data \<noteq> JNone \<or> truthy (resp_extra r)"
    and "as_mapping (py_or (resp_extra r) (JDict [])) = Inr ex"
    and "as_mapping (convert (ctx_resource (resp_context r)) data representation) = Inr c"
    and "serialize_links r = Inr links"
    and "slot_ok ((map_of (rev ex) ++ map_of (rev c)) (resp_links_key r))"
  shows "\<exists>d. serialize r data representation
              = Inr (JDict d, r\<lparr>resp_extra := alias_links (resp_links_key r) (map fst c) (resp_extra r) d\<rparr>)
            \<and> map_of d = envelope ex c (resp_links_key r) links"
proof -
  obtain out where out: "add_links r (dict_update (dict_update [] ex) c) = Inr out"
    and m: "map_of out = with_links (map_of (rev ex) ++ map_of (rev c)) (resp_links_key r) links"
    using add_links_ok [OF assms(6), of "dict_update (dict_update [] ex) c"] assms(7)
    by (auto simp: map_of_output)
  have "serialize r data representation
      = Inr (JDict out, r\<lparr>resp_extra := alias_links (resp_links_key r) (map fst c) (resp_extra r) out\<rparr>)"
    using assms(1-5) out by (auto simp: serialize_def)
  with m show ?thesis by (auto simp: envelope_def)
qed

lemma serialize_empty_branch:
  "data = JNone \<Longrightarrow> \<not> truthy (resp_extra r) \<Longrightarrow> serialize r data representation = Inr (JStr [], r)"
  by (simp add: serialize_def)

lemma serialize_raw_branch:
  "\<not> (200 \<le> resp_status r \<and> resp_status r < 300) \<Longrightarrow> data \<noteq> JNone \<or> truthy (resp_extra r) \<Longrightarrow>
   serialize r data representation = Inr (data, r)"
  by (auto simp: serialize_def)

lemma dispatch_not_collection:
  "\<not> is_collection (resp_class r) \<Longrightarrow> response_serialize r data representation = serialize r data representation"
  by (cases "resp_class r") (simp_all add: response_serialize_def)

lemma map_of_collection_base:
  "map_of (AList.update ''totalCount'' n (AList.update key l [])) = [key \<mapsto> l, ''totalCount'' \<mapsto> n]"
  by (simp add: update_conv' fun_eq_iff)

lemma collection_success:
  assumes "py_iter iterable = Inr items"
    and "as_mapping (py_or (resp_extra r) (JDict [])) = Inr ex"
    and "serialize_links r = Inr links"
    and "slot_ok (([key \<mapsto> JList (map (\<lambda>x. convert (ctx_resource (resp_context r)) x representation) items),
                   ''totalCount'' \<mapsto> JInt (case totalCount of Some n \<Rightarrow> n | None \<Rightarrow> int (length items))]
                  ++ map_of (rev ex)) (resp_links_key r))"
  shows "\<exists>d. collection_serialize r key totalCount iterable representation
              = Inr (JDict d, r\<lparr>resp_extra := alias_links (resp_links_key r) [] (resp_extra r) d\<rparr>)
            \<and> map_of d = collection_envelope key
                 (map (\<lambda>x. convert (ctx_resource (resp_context r)) x representation) items)
                 (case totalCount of Some n \<Rightarrow> n | None \<Rightarrow> int (length items)) ex (resp_links_key r) links"
proof -
  let ?conv = "map (\<lambda>x. convert (ctx_resource (resp_context r)) x representation) items"
  let ?cnt = "case totalCount of Some n \<Rightarrow> n | None \<Rightarrow> int (length items)"
  let ?resp = "AList.update ''totalCount'' (JInt ?cnt) (AList.update key (JList ?conv) [])"
  have m: "map_of (dict_update ?resp ex) = [key \<mapsto> JList ?conv, ''totalCount'' \<mapsto> JInt ?cnt] ++ map_of (rev ex)"
    by (simp only: map_of_dict_update map_of_collection_base map_of.simps rev.simps map_add_empty)
  obtain out where out: "add_links r (dict_update ?resp ex) = Inr out"
    and mo: "map_of out = with_links (map_of (dict_update ?resp ex)) (resp_links_key r) links"
    using add_links_ok [OF assms(3), of "dict_update ?resp ex"] assms(4) m by auto
  have "collection_serialize r key totalCount iterable representation
      = Inr (JDict out, r\<lparr>resp_extra := alias_links (resp_links_key r) [] (resp_extra r) out\<rparr>)"
    using assms(1,2) out by (simp add: collection_serialize_def Let_def)
  with mo m show ?thesis by (auto simp: collection_envelope_def)
qed

lemma serialize_shape:
  "serialize r data representation = Inr (out, r') \<Longrightarrow> r' = r\<lparr>resp_extra := resp_extra r'\<rparr>"
  by (auto simp: serialize_def bind_result_Inr_iff split: if_splits)

lemma collection_serialize_shape:
  "collection_serialize r key tc data representation = Inr (out, r') \<Longrightarrow>
   r' = r\<lparr>resp_extra := resp_extra r'\<rparr>"
  by (auto simp: collection_serialize_def bind_result_Inr_iff Let_def)

section \<open>Properties of serialisation\<close>

text \<open>
  C5. Refinement of the success branch: for a status in [200, 300) with a body,
  when the updates succeed, \<open>serialize\<close> returns a dictionary whose lookup is
  the abstract envelope: \<open>extra\<close>, overridden by the converted data, with the
  links key bound to the dictionary there merged with the generated links.
\<close>

theorem serialize_envelope:
  assumes "200 \<le> resp_status r" and "resp_status r < 300"
    and "data \<noteq> JNone \<or> truthy (resp_extra r)"
    and "as_mapping (py_or (resp_extra r) (JDict [])) = Inr ex"
    and "as_mapping (convert (ctx_resource (resp_context r)) data representation) = Inr c"
    and "serialize_links r = Inr links"
    and "slot_ok ((map_of (rev ex) ++ map_of (rev c)) (resp_links_key r))"
  shows "\<exists>d r'. serialize r data representation = Inr (JDict d, r') \<and>
                map_of d = envelope ex c (resp_links_key r) links"
  using serialize_success [OF assms] by blast

theorem serialize_envelope_witness:
  "200 \<le> resp_status (response_init demo_context (JDict [(''a'', JInt 1)]) 200 None None JNone True ''_links'') \<and>
   (\<exists>d r'. serialize (response_init demo_context (JDict [(''a'', JInt 1)]) 200 None None JNone True ''_links'')
             (JDict [(''a'', JInt 1)]) ''default'' = Inr (JDict d, r') \<and>
           map_of d = envelope [] [(''a'', JInt 1)] ''_links''
             [(''other'', JDict [(''uri'', JStr ''http://testserver/other/5''), (''method'', JStr ''GET'')])])"
proof -
  let ?r = "response_init demo_context (JDict [(''a'', JInt 1)]) 200 None None JNone True ''_links''"
  have s1: "200 \<le> resp_status ?r" and s2: "resp_status ?r < 300"
    and b: "JDict [(''a'', JInt 1)] \<noteq> JNone \<or> truthy (resp_extra ?r)"
    and e: "as_mapping (py_or (resp_extra ?r) (JDict [])) = Inr []"
    and c: "as_mapping (convert (ctx_resource (resp_context ?r)) (JDict [(''a'', JInt 1)]) ''default'')
            = Inr [(''a'', JInt 1)]"
    by (simp_all add: response_init_def demo_defs convert_def py_or_def)
  have l: "serialize_links ?r = Inr [(''other'', JDict [(''uri'', JStr ''http://testserver/other/5''),
                                                     (''method'', JStr ''GET'')])]"
    by (simp add: response_init_def demo_defs serialize_links_def resource_uri_def build_absolute_uri_def)
       code_simp
  have o: "slot_ok ((map_of (rev []) ++ map_of (rev [(''a'', JInt 1)])) (resp_links_key ?r))"
    by (simp add: response_init_def)
  have k: "resp_links_key ?r = ''_links''"
    by (simp add: response_init_def)
  show ?thesis using serialize_envelope [OF s1 s2 b e c l o] s1 by (simp only: k)
qed

text \<open>
  C6. The links block is additive: when \<open>extra\<close> already holds a dictionary
  under the links key and the converted data does not replace it, the
  serialised links dictionary has the pre-seeded keys and one key per declared
  link (when links are wanted and \<open>context.parameters\<close> is set).
\<close>

theorem serialize_links_additive:
  assumes "200 \<le> resp_status r" and "resp_status r < 300"
    and "resp_extra r = JDict e" and "distinct (map fst e)"
    and "map_of e (resp_links_key r) = Some (JDict pre)"
    and "as_mapping (convert (ctx_resource (resp_context r)) data representation) = Inr c"
    and "resp_links_key r \<notin> set (map fst c)"
    and "resp_add_links r" and "ctx_parameters (resp_context r) = Some params"
  shows "\<exists>d l r'. serialize r data representation = Inr (JDict d, r') \<and>
           map_of d (resp_links_key r) = Some (JDict l) \<and>
           set (map fst l) = set (map fst pre) \<union> set (map fst (res_links (ctx_resource (resp_context r))))"
proof -
  obtain links where L: "serialize_links r = Inr links"
    and K: "set (map fst links) = set (map fst (res_links (ctx_resource (resp_context r))))"
    using serialize_links_keys [OF assms(8,9)] by blast
  have ne: "e \<noteq> []" using assms(5) by auto
  have ex: "as_mapping (py_or (resp_extra r) (JDict [])) = Inr e"
    using assms(3) ne by (simp add: py_or_def)
  have body: "data \<noteq> JNone \<or> truthy (resp_extra r)"
    using assms(3) ne by simp
  have "map_of (rev c) (resp_links_key r) = None"
    using assms(7) by (simp add: map_of_eq_None_iff)
  then have slot: "(map_of (rev e) ++ map_of (rev c)) (resp_links_key r) = Some (JDict pre)"
    using assms(4,5) by (simp add: map_of_rev_distinct map_add_def)
  obtain d where S: "serialize r data representation
      = Inr (JDict d, r\<lparr>resp_extra := alias_links (resp_links_key r) (map fst c) (resp_extra r) d\<rparr>)"
    and M: "map_of d = envelope e c (resp_links_key r) links"
    using serialize_success [OF assms(1,2) body ex assms(6) L] slot by auto
  have "map_of d (resp_links_key r) = Some (JDict (dict_update pre links))"
    using M slot by (simp add: envelope_def with_links_def)
  moreover have "set (map fst (dict_update pre links)) = set (map fst pre) \<union> set (map fst links)"
    by (rule keys_dict_update)
  ultimately show ?thesis using S K by auto
qed

theorem serialize_links_additive_witness:
  "map_of [(''_links'', JDict [(''self'', JStr ''x'')])] ''_links'' = Some (JDict [(''self'', JStr ''x'')]) \<and>
   (\<exists>d l r'. serialize (response_init demo_context (JDict [(''a'', JInt 1)]) 200 None None
                  (JDict [(''_links'', JDict [(''self'', JStr ''x'')])]) True ''_links'')
                (JDict [(''a'', JInt 1)]) ''default'' = Inr (JDict d, r') \<and>
              map_of d ''_links'' = Some (JDict l) \<and> set (map fst l) = {''self'', ''other''})"
proof -
  let ?r = "response_init demo_context (JDict [(''a'', JInt 1)]) 200 None None
              (JDict [(''_links'', JDict [(''self'', JStr ''x'')])]) True ''_links''"
  have c: "as_mapping (convert (ctx_resource (resp_context ?r)) (JDict [(''a'', JInt 1)]) ''default'')
      = Inr [(''a'', JInt 1)]"
    by (simp add: demo_defs convert_def)
  have p: "ctx_parameters (resp_context ?r) = Some [''id'' \<mapsto> ''5'']"
    by (simp add: demo_defs)
  have "\<exists>d l r'. serialize ?r (JDict [(''a'', JInt 1)]) ''default'' = Inr (JDict d, r') \<and>
           map_of d (resp_links_key ?r) = Some (JDict l) \<and>
           set (map fst l) = set (map fst [(''self'', JStr ''x'')]) \<union>
             set (map fst (res_links (ctx_resource (resp_context ?r))))"
    by (rule serialize_links_additive
          [where e = "[(''_links'', JDict [(''self'', JStr ''x'')])]" and pre = "[(''self'', JStr ''x'')]",
           OF _ _ _ _ _ c _ _ p]) simp_all
  then show ?thesis by (simp add: demo_defs insert_commute)
qed

text \<open>
  C7. A response of any class but \<open>CollectionResponse\<close> serialises to the
  empty string when the data is \<open>None\<close> and \<open>extra\<close> is false, whatever the
  representation (spec 4.3, item 1).
\<close>

theorem serialize_no_body:
  assumes "data = JNone" and "\<not> truthy (resp_extra r)" and "\<not> is_collection (resp_class r)"
  shows "response_serialize r data representation = Inr (JStr [], r)"
  using assms by (simp add: dispatch_not_collection serialize_empty_branch)

theorem serialize_no_body_witness:
  "\<not> truthy (resp_extra (response_init demo_context JNone 200 None None JNone True ''_links'')) \<and>
   \<not> is_collection (resp_class (response_init demo_context JNone 200 None None JNone True ''_links'')) \<and>
   response_serialize (response_init demo_context JNone 200 None None JNone True ''_links'') JNone ''summary''
     = Inr (JStr [], response_init demo_context JNone 200 None None JNone True ''_links'')"
  using serialize_no_body [of JNone "response_init demo_context JNone 200 None None JNone True ''_links''"]
  by simp

text \<open>
  C8. Outside the success range the data is returned unchanged (error bodies are
  shaped by the caller), for every class but \<open>CollectionResponse\<close>.
\<close>

theorem serialize_error_raw:
  assumes "\<not> (200 \<le> resp_status r \<and> resp_status r < 300)"
    and "data \<noteq> JNone \<or> truthy (resp_extra r)" and "\<not> is_collection (resp_class r)"
  shows "response_serialize r data representation = Inr (data, r)"
  using assms by (simp add: dispatch_not_collection serialize_raw_branch)

theorem serialize_error_raw_witness:
  "\<not> (200 \<le> resp_status (not_found_response demo_context (JStr ''missing'') None) \<and>
      resp_status (not_found_response demo_context (JStr ''missing'') None) < 300) \<and>
   response_serialize (not_found_response demo_context (JStr ''missing'') None) (JStr ''missing'') ''default''
     = Inr (JStr ''missing'', not_found_response demo_context (JStr ''missing'') None)"
proof -
  let ?r = "not_found_response demo_context (JStr ''missing'') None"
  have s: "\<not> (200 \<le> resp_status ?r \<and> resp_status ?r < 300)"
    by (simp add: not_found_response_def)
  have c: "\<not> is_collection (resp_class ?r)"
    by (simp add: not_found_response_def)
  show ?thesis using serialize_error_raw [OF s _ c, of "JStr ''missing''"] s by simp
qed

text \<open>
  C9. \<open>CollectionResponse.serialize\<close> over an iterable returns the items list
  (each item converted) under \<open>key\<close> and \<open>totalCount\<close>, which is the given
  count or the number of items, overridden by \<open>extra\<close>, with the links block;
  for the spec's example \<open>[a, b, c]\<close> the count is 3.
\<close>

theorem collection_serialize_envelope:
  assumes "resp_class r = CollectionResponse key totalCount"
    and "py_iter iterable = Inr items"
    and "as_mapping (py_or (resp_extra r) (JDict [])) = Inr ex"
    and "serialize_links r = Inr links"
    and "slot_ok (([key \<mapsto> JList (map (\<lambda>x. convert (ctx_resource (resp_context r)) x representation) items),
                   ''totalCount'' \<mapsto> JInt (case totalCount of Some n \<Rightarrow> n | None \<Rightarrow> int (length items))]
                  ++ map_of (rev ex)) (resp_links_key r))"
  shows "\<exists>d r'. response_serialize r iterable representation = Inr (JDict d, r') \<and>
           map_of d = collection_envelope key
             (map (\<lambda>x. convert (ctx_resource (resp_context r)) x representation) items)
             (case totalCount of Some n \<Rightarrow> n | None \<Rightarrow> int (length items)) ex (resp_links_key r) links"
  using collection_success [OF assms(2-5)] assms(1) by (auto simp: response_serialize_def)

theorem collection_serialize_envelope_witness:
  "(\<exists>d r'. response_serialize
             (collection_response demo_context (JList [JStr ''a'', JStr ''b'', JStr ''c'']) None None
                200 None None JNone True ''_links'')
             (JList [JStr ''a'', JStr ''b'', JStr ''c'']) ''default'' = Inr (JDict d, r') \<and>
           map_of d ''totalCount'' = Some (JInt 3))"
proof -
  let ?it = "JList [JStr ''a'', JStr ''b'', JStr ''c'']"
  let ?r = "collection_response demo_context ?it None None 200 None None JNone True ''_links''"
  have k: "resp_class ?r = CollectionResponse ''items'' None"
    by (simp add: collection_response_def)
  have i: "py_iter ?it = Inr [JStr ''a'', JStr ''b'', JStr ''c'']"
    by (simp add: py_iter_def)
  have e: "as_mapping (py_or (resp_extra ?r) (JDict [])) = Inr []"
    by (simp add: collection_response_def py_or_def)
  have l: "serialize_links ?r = Inr [(''other'', JDict [(''uri'', JStr ''http://testserver/other/5''),
                                                     (''method'', JStr ''GET'')])]"
    by (simp add: collection_response_def demo_defs serialize_links_def resource_uri_def
                  build_absolute_uri_def) code_simp
  have o: "slot_ok (([''items'' \<mapsto> JList (map (\<lambda>x. convert (ctx_resource (resp_context ?r)) x ''default'')
                       [JStr ''a'', JStr ''b'', JStr ''c'']),
                     ''totalCount'' \<mapsto> JInt (case None of Some n \<Rightarrow> n | None \<Rightarrow> int (length [JStr ''a'', JStr ''b'', JStr ''c'']))]
                   ++ map_of (rev [])) (resp_links_key ?r))"
    by (simp add: collection_response_def)
  have lk: "resp_links_key ?r = ''_links''"
    by (simp add: collection_response_def)
  from collection_serialize_envelope [OF k i e l o] show ?thesis
    by (auto simp: collection_envelope_def with_links_def lk)
qed

text \<open>
  C10. Link generation reads \<open>context.parameters\<close>, which \<open>Context.__init__\<close>
  never assigns: serialising a successful response whose context comes straight
  from \<open>Context(request, resource, body)\<close> raises \<open>AttributeError\<close> as soon
  as the resource declares a link.
\<close>

theorem links_need_parameters:
  assumes "res_links res \<noteq> []" and "200 \<le> status" and "status < 300" and "data \<noteq> JNone"
    and "as_mapping (convert res data representation) = Inr c"
    and "slot_ok (map_of (rev c) links_key)"
  shows "response_serialize (response_init (context_init request res body) data status headers last_modified
                               JNone True links_key) data representation = Inl AttributeError"
proof -
  let ?r = "response_init (context_init request res body) data status headers last_modified JNone True links_key"
  have "serialize_links ?r = Inl AttributeError"
    using assms(1) by (simp add: serialize_links_def)
  moreover have "slot_ok (map_of (dict_update (dict_update [] []) c) links_key)"
    using assms(6) by (simp add: map_of_dict_update)
  ultimately have "add_links ?r (dict_update (dict_update [] []) c) = Inl AttributeError"
    by (simp add: add_links_links_error)
  then show ?thesis
    using assms(2-5) by (simp add: response_serialize_def serialize_def py_or_def)
qed

theorem links_need_parameters_witness:
  "res_links demo_resource \<noteq> [] \<and>
   response_serialize (response_init (context_init demo_request demo_resource JNone) (JDict [(''a'', JInt 1)])
                         200 None None JNone True ''_links'') (JDict [(''a'', JInt 1)]) ''default''
     = Inl AttributeError"
proof -
  have l: "res_links demo_resource \<noteq> []" by (simp add: demo_defs)
  have c: "as_mapping (convert demo_resource (JDict [(''a'', JInt 1)]) ''default'') = Inr [(''a'', JInt 1)]"
    by (simp add: demo_defs convert_def)
  show ?thesis
    using links_need_parameters [OF l _ _ _ c, of 200 "''_links''" demo_request JNone None None] l by simp
qed

text \<open>
  C11. A response in the success range with \<open>extra\<close> items and no data raises
  \<open>TypeError\<close> when the representation has no converter: the identity
  fallback returns \<open>None\<close>, which \<open>dict.update\<close> rejects. The spec's bodiless
  case only covers a false \<open>extra\<close>.
\<close>

theorem extra_without_data_fails:
  assumes "200 \<le> resp_status r" and "resp_status r < 300"
    and "representations (ctx_resource (resp_context r)) representation = None"
    and "resp_extra r = JDict e" and "e \<noteq> []"
  shows "serialize r JNone representation = Inl TypeError"
  using assms by (simp add: serialize_def py_or_def convert_def as_mapping_def)

theorem extra_without_data_fails_witness:
  "representations (ctx_resource (resp_context
      (response_init demo_context JNone 200 None None (JDict [(''total'', JInt 0)]) True ''_links''))) ''default''
     = None \<and>
   serialize (response_init demo_context JNone 200 None None (JDict [(''total'', JInt 0)]) True ''_links'')
     JNone ''default'' = Inl TypeError"
proof -
  let ?r = "response_init demo_context JNone 200 None None (JDict [(''total'', JInt 0)]) True ''_links''"
  have rep: "representations (ctx_resource (resp_context ?r)) ''default'' = None"
    by (simp add: demo_defs)
  show ?thesis
    using extra_without_data_fails [OF _ _ rep, of "[(''total'', JInt 0)]"] rep by simp
qed

text \<open>
  C12. The spec says a response is immutable after construction except for its
  headers. Serialising one whose \<open>extra\<close> carries a links dictionary updates
  that dictionary in place: afterwards \<open>self.extra\<close> (and the caller's dictionary
  passed as \<open>extra\<close>) also holds the generated links.
\<close>

theorem serialize_mutates_extra:
  "\<exists>out r'. serialize (response_init demo_context (JDict [(''a'', JInt 1)]) 200 None None
                        (JDict [(''_links'', JDict [(''self'', JStr ''x'')])]) True ''_links'')
               (JDict [(''a'', JInt 1)]) ''default'' = Inr (out, r') \<and>
     resp_extra r' = JDict [(''_links'', JDict [(''self'', JStr ''x''),
                               (''other'', JDict [(''uri'', JStr ''http://testserver/other/5''),
                                                  (''method'', JStr ''GET'')])])]"
  by (simp add: serialize_def demo_defs py_or_def convert_def add_links_def serialize_links_def
                resource_uri_def build_absolute_uri_def alias_links_def) code_simp

text \<open>
  C13. \<open>Last-Modified\<close>: \<open>set_last_modified\<close> with a date sets the header to
  its HTTP date and leaves the other headers; with \<open>None\<close> it removes the
  header; the constructor's \<open>last_modified\<close> argument does the former.
\<close>

theorem last_modified_header:
  "map_of (resp_headers (set_last_modified (Some t) r))
     = (map_of (resp_headers r))(''Last-Modified'' \<mapsto> http_date t) \<and>
   map_of (resp_headers (set_last_modified None r)) = (map_of (resp_headers r))(''Last-Modified'' := None) \<and>
   map_of (resp_headers (response_init ctx data status headers (Some t) extra al lk)) ''Last-Modified''
     = Some (http_date t)"
  by (simp add: set_last_modified_def response_init_def update_conv' delete_conv')

end
