(* ===== verification/Context_Factories.thy ===== *)
theory Context_Factories
  imports Responses
begin

text \<open>
  The response factory methods of \<open>Context\<close> (\<open>src/restosaur/context.py\<close>,
  lines 22-48): each forwards its arguments to one response class with the
  context bound as the first argument. \<open>context_attribute\<close> is the lookup of
  a factory by name on a \<open>Context\<close> object (\<open>getattr(ctx, name)\<close>), which
  raises \<open>AttributeError\<close> for a name the class does not define.
\<close>

definition ctx_Response ::
  "Context \<Rightarrow> json \<Rightarrow> int \<Rightarrow> (string \<times> string) list option \<Rightarrow> int option \<Rightarrow> json \<Rightarrow> bool \<Rightarrow> string
   \<Rightarrow> response" where
  "ctx_Response ctx data status headers last_modified extra add_links' links_key =
     response_init ctx data status headers last_modified extra add_links' links_key"

definition ctx_ValidationError :: "Context \<Rightarrow> json \<Rightarrow> (string \<times> string) list option \<Rightarrow> response" where
  "ctx_ValidationError ctx errors headers = validation_error_response ctx errors headers"

definition ctx_NotAcceptable :: "Context \<Rightarrow> (string \<times> string) list option \<Rightarrow> response" where
  "ctx_NotAcceptable ctx headers = not_acceptable_response ctx headers"

definition ctx_MethodNotAllowed :: "Context \<Rightarrow> json \<Rightarrow> (string \<times> string) list option \<Rightarrow> response" where
  "ctx_MethodNotAllowed ctx data headers = method_not_allowed_response ctx data headers"

definition ctx_Forbidden :: "Context \<Rightarrow> json \<Rightarrow> (string \<times> string) list option \<Rightarrow> response" where
  "ctx_Forbidden ctx data headers = forbidden_response ctx data headers"

definition ctx_Unauthorized :: "Context \<Rightarrow> json \<Rightarrow> (string \<times> string) list option \<Rightarrow> response" where
  "ctx_Unauthorized ctx data headers = unauthorized_response ctx data headers"

definition ctx_NoContent :: "Context \<Rightarrow> json \<Rightarrow> (string \<times> string) list option \<Rightarrow> response" where
  "ctx_NoContent ctx data headers = no_content_response ctx data headers"

definition ctx_Entity ::
  "Context \<Rightarrow> json \<Rightarrow> int \<Rightarrow> (string \<times> string) list option \<Rightarrow> int option \<Rightarrow> json \<Rightarrow> bool \<Rightarrow> string
   \<Rightarrow> response" where
  "ctx_Entity ctx data status headers last_modified extra add_links' links_key =
     entity_response ctx data status headers last_modified extra add_links' links_key"

definition ctx_Collection ::
  "Context \<Rightarrow> json \<Rightarrow> int option \<Rightarrow> string option \<Rightarrow> int \<Rightarrow> (string \<times> string) list option \<Rightarrow>
   int option \<Rightarrow> json \<Rightarrow> bool \<Rightarrow> string \<Rightarrow> response" where
  "ctx_Collection ctx iterable totalCount key status headers last_modified extra add_links' links_key =
     collection_response ctx iterable totalCount key status headers last_modified extra add_links' links_key"

text \<open>The factory methods \<open>Context\<close> defines, by name, and the class each one builds.\<close>

definition context_factories :: "(string \<times> string) list" where
  "context_factories =
     [(''Response'', ''Response''), (''ValidationError'', ''ValidationErrorResponse''),
      (''NotAcceptable'', ''NotAcceptableResponse''), (''MethodNotAllowed'', ''MethodNotAllowedResponse''),
      (''Forbidden'', ''ForbiddenResponse''), (''Unauthorized'', ''UnauthorizedResponse''),
      (''NoContent'', ''NoContentResponse''), (''Entity'', ''EntityResponse''),
      (''Collection'', ''CollectionResponse'')]"

definition context_attribute :: "string \<Rightarrow> string result" where
  "context_attribute name =
     (case map_of context_factories name of None \<Rightarrow> Inl AttributeError | Some cls \<Rightarrow> Inr cls)"

text \<open>
  C14. \<open>ctx.ValidationError(errors)\<close> builds a response with status 422 whose
  serialisation is \<open>{'errors': errors}\<close> in every representation (the spec's
  example uses \<open>{field: "required"}\<close>).
\<close>

theorem validation_error_payload:
  "resp_status (ctx_ValidationError ctx errors headers) = 422 \<and>
   response_serialize (ctx_ValidationError ctx errors headers)
       (resp_data (ctx_ValidationError ctx errors headers)) representation
     = Inr (JDict [(''errors'', errors)], ctx_ValidationError ctx errors headers)"
  by (simp add: ctx_ValidationError_def validation_error_response_def response_serialize_def serialize_def)

text \<open>
  C15. The test suite and the spec expect the factories \<open>Created\<close>,
  \<open>NotFound\<close> and \<open>NotModified\<close> on a context; \<open>Context\<close> does not define
  them, so \<open>ctx.Created()\<close> raises \<open>AttributeError\<close>, while the nine it defines
  resolve to their classes.
\<close>

theorem missing_context_factories:
  "context_attribute ''Created'' = Inl AttributeError \<and>
   context_attribute ''NotFound'' = Inl AttributeError \<and>
   context_attribute ''NotModified'' = Inl AttributeError \<and>
   context_attribute ''ValidationError'' = Inr ''ValidationErrorResponse'' \<and>
   context_attribute ''Collection'' = Inr ''CollectionResponse''"
  by (simp add: context_attribute_def context_factories_def)

end
