(* ===== verification/Call_Binding.thy ===== *)
theory Call_Binding
  imports Context_Factories
begin

text \<open>
  How Python 2 binds the arguments of a call to a function's parameters
  (language semantics), and the signatures of the sources' constructors and
  methods. A call is described by the number of positional arguments (after
  \<open>self\<close>) and the names of its keyword arguments; binding either raises
  \<open>TypeError\<close> or says where each bound parameter got its value. The test
  suite's calls and the spec's use of the factories are then checked against
  the signatures.
\<close>

datatype arg_src = Pos nat | Kw | Dflt

record signature =
  sig_params :: "string list"
  sig_required :: nat
  sig_star_args :: bool
  sig_star_kwargs :: bool

text \<open>
  CPython's rules: too many positional arguments, an unknown keyword (without
  \<open>**kwargs\<close>), a keyword for a parameter already bound positionally, or a
  parameter without default left unbound each raise \<open>TypeError\<close>. Keywords of
  one call are distinct (a repeated keyword is a syntax error).
\<close>

definition bind_call :: "signature \<Rightarrow> nat \<Rightarrow> string list \<Rightarrow> (string \<times> arg_src) list result" where
  "bind_call sg npos kws =
     (let ps = sig_params sg; pos = take npos ps
      in if \<not> sig_star_args sg \<and> length ps < npos then Inl TypeError
         else if \<not> sig_star_kwargs sg \<and> list_ex (\<lambda>k. k \<notin> set ps) kws then Inl TypeError
         else if list_ex (\<lambda>k. k \<in> set pos) kws then Inl TypeError
         else if list_ex (\<lambda>p. p \<notin> set pos \<and> p \<notin> set kws) (take (sig_required sg) ps) then Inl TypeError
         else Inr (map (\<lambda>(i, p). (p, if i < npos then Pos i else if p \<in> set kws then Kw else Dflt))
                       (zip [0..<length ps] ps)))"

section \<open>Signatures of the sources\<close>

definition sig_Context_init :: signature where
  "sig_Context_init = \<lparr>sig_params = [''request'', ''resource'', ''body''], sig_required = 2,
                       sig_star_args = False, sig_star_kwargs = False\<rparr>"

definition sig_build_absolute_uri :: signature where
  "sig_build_absolute_uri = \<lparr>sig_params = [''path''], sig_required = 1,
                             sig_star_args = False, sig_star_kwargs = False\<rparr>"

definition sig_Response_init :: signature where
  "sig_Response_init = \<lparr>sig_params = [''context'', ''data'', ''status'', ''headers'', ''last_modified'',
                                       ''extra'', ''add_links'', ''links_key''], sig_required = 1,
                        sig_star_args = False, sig_star_kwargs = False\<rparr>"

definition sig_status_response :: signature where
  "sig_status_response = \<lparr>sig_params = [''context'', ''data'', ''headers''], sig_required = 1,
                          sig_star_args = False, sig_star_kwargs = False\<rparr>"

definition sig_Collection_init :: signature where
  "sig_Collection_init = \<lparr>sig_params = [''context'', ''iterable'', ''totalCount'', ''key''], sig_required = 2,
                          sig_star_args = False, sig_star_kwargs = True\<rparr>"

definition sig_NotAcceptable_init :: signature where
  "sig_NotAcceptable_init = \<lparr>sig_params = [''context'', ''headers''], sig_required = 1,
                             sig_star_args = False, sig_star_kwargs = False\<rparr>"

definition sig_ValidationError_init :: signature where
  "sig_ValidationError_init = \<lparr>sig_params = [''context'', ''errors'', ''headers''], sig_required = 2,
                               sig_star_args = False, sig_star_kwargs = False\<rparr>"

text \<open>Which \<open>__init__\<close> each response class runs (the subclasses of lines 65-140).\<close>

definition class_signature :: "string \<Rightarrow> signature option" where
  "class_signature cls =
     (if cls \<in> set [''Response'', ''EntityResponse''] then Some sig_Response_init
      else if cls \<in> set [''CreatedResponse'', ''NoContentResponse'', ''NotModifiedResponse'',
                         ''UnauthorizedResponse'', ''ForbiddenResponse'', ''NotFoundResponse'',
                         ''MethodNotAllowedResponse''] then Some sig_status_response
      else if cls = ''CollectionResponse'' then Some sig_Collection_init
      else if cls = ''NotAcceptableResponse'' then Some sig_NotAcceptable_init
      else if cls = ''ValidationErrorResponse'' then Some sig_ValidationError_init
      else None)"

text \<open>
  Constructing a response: bind the class's own \<open>__init__\<close>;
  \<open>CollectionResponse\<close> passes its other keywords on with
  \<open>super().__init__(context, data=iterable, **kwargs)\<close>, where a keyword
  \<open>data\<close> among them is a second value for \<open>data\<close>.
\<close>

definition construct_call :: "string \<Rightarrow> nat \<Rightarrow> string list \<Rightarrow> (string \<times> arg_src) list result" where
  "construct_call cls npos kws =
     (case class_signature cls of
        None \<Rightarrow> Inl AttributeError
      | Some sg \<Rightarrow>
          bind_result (bind_call sg npos kws) (\<lambda>b.
            if cls = ''CollectionResponse''
            then (let rest = filter (\<lambda>k. k \<notin> set (sig_params sg)) kws
                  in if ''data'' \<in> set rest then Inl TypeError
                     else bind_result (bind_call sig_Response_init 1 (''data'' # rest)) (\<lambda>_. Inr b))
            else Inr b))"

text \<open>\<open>ctx.Name(*args, **kwargs)\<close>: the factory, then its class with the context first.\<close>

definition ctx_factory_call :: "string \<Rightarrow> nat \<Rightarrow> string list \<Rightarrow> (string \<times> arg_src) list result" where
  "ctx_factory_call name npos kws =
     bind_result (context_attribute name) (\<lambda>cls. construct_call cls (Suc npos) kws)"

section \<open>The test suite's calls\<close>

text \<open>
  \<open>create_context\<close> of \<open>ContextTestCase.setUp\<close>: \<open>Context(self.api,
  request, resource, method, **kwargs)\<close>, four positional arguments.
\<close>

definition test_create_context :: "string list \<Rightarrow> (string \<times> arg_src) list result" where
  "test_create_context kws = bind_call sig_Context_init 4 kws"

section \<open>Lemmas\<close>

lemma bind_call_too_many:
  "\<not> sig_star_args sg \<Longrightarrow> length (sig_params sg) < npos \<Longrightarrow> bind_call sg npos kws = Inl TypeError"
  by (simp add: bind_call_def Let_def)

lemma add_links_status_class: "add_links (r\<lparr>resp_status := s, resp_class := c\<rparr>) = add_links r"
  by (rule ext) (simp add: add_links_def serialize_links_def Let_def cong: option.case_cong json.case_cong)

lemma map_sum_bind_result: "map_sum id g (bind_result x f) = bind_result x (\<lambda>a. map_sum id g (f a))"
  by (cases x) simp_all


section \<open>Properties\<close>

text \<open>
  C23. The test suite cannot build a context: its fixture passes four
  positional arguments (\<open>api\<close>, the request, the resource, the method) to
  \<open>Context(request, resource, body=None)\<close>, which raises \<open>TypeError\<close> whatever
  keywords follow, so every test that builds a context through the fixture
  raises there: \<open>test_deserialized_property\<close>, the tests of
  \<open>build_absolute_uri\<close> and of the modification date that call it, and all of
  \<open>TestContextResponseFactories\<close>, whose \<open>setUp\<close> calls it;
  the call the code is written for, \<open>Context(request, resource, body=b)\<close>, binds.
\<close>

theorem test_fixture_context_fails:
  "test_create_context kws = Inl TypeError \<and>
   bind_call sig_Context_init 2 [''body''] = Inr [(''request'', Pos 0), (''resource'', Pos 1), (''body'', Kw)]"
proof
  show "test_create_context kws = Inl TypeError"
    unfolding test_create_context_def by (rule bind_call_too_many) (simp_all add: sig_Context_init_def)
qed (simp add: bind_call_def sig_Context_init_def)

text \<open>
  C24. \<open>build_absolute_uri(path)\<close> takes exactly one argument: the tests'
  calls without a path and with \<open>parameters=\<close> raise \<open>TypeError\<close>; only
  \<open>build_absolute_uri('/bar/')\<close> binds.
\<close>

theorem build_absolute_uri_test_calls:
  "bind_call sig_build_absolute_uri 0 [] = Inl TypeError \<and>
   bind_call sig_build_absolute_uri 0 [''parameters''] = Inl TypeError \<and>
   bind_call sig_build_absolute_uri 1 [''parameters''] = Inl TypeError \<and>
   bind_call sig_build_absolute_uri 1 [] = Inr [(''path'', Pos 0)]"
  by (simp add: bind_call_def sig_build_absolute_uri_def)


text \<open>
  C27. NoContent and NotModified responses have bodies, although the spec's
  table gives both an empty payload: the \<open>NoContent\<close> factory accepts
  \<open>data=\<close>; a \<open>NoContentResponse\<close> (status 204, inside [200, 300))
  serialises to exactly the payload, or the exception, of a plain
  \<open>Response\<close> with status 200 and the same data; and a
  \<open>NotModifiedResponse\<close> returns its data unchanged (the empty string only
  when the data is \<open>None\<close>).
\<close>

theorem bodiless_variants_take_data:
  "ctx_factory_call ''NoContent'' 0 [''data''] = Inr [(''context'', Pos 0), (''data'', Kw), (''headers'', Dflt)] \<and>
   map_sum id fst (response_serialize (no_content_response ctx data headers) data representation)
     = map_sum id fst (response_serialize (response_init ctx data 200 headers None JNone True ''_links'') data representation) \<and>
   map_sum id fst (response_serialize (not_modified_response ctx data headers) data representation)
     = Inr (if data = JNone then JStr [] else data)"
proof (intro conjI)
  show "ctx_factory_call ''NoContent'' 0 [''data''] = Inr [(''context'', Pos 0), (''data'', Kw), (''headers'', Dflt)]"
    by (simp add: ctx_factory_call_def context_attribute_def context_factories_def construct_call_def
                  class_signature_def bind_call_def sig_status_response_def)
next
  show "map_sum id fst (response_serialize (no_content_response ctx data headers) data representation)
     = map_sum id fst (response_serialize (response_init ctx data 200 headers None JNone True ''_links'') data representation)"
  proof -
    let ?r = "response_init ctx data 200 headers None JNone True ''_links''"
    have "no_content_response ctx data headers = ?r\<lparr>resp_status := 204, resp_class := NoContentResponse\<rparr>"
      by (simp add: no_content_response_def response_init_def)
    then show ?thesis
      by (simp add: response_serialize_def serialize_def add_links_status_class map_sum_bind_result)
  qed
next
  show "map_sum id fst (response_serialize (not_modified_response ctx data headers) data representation)
     = Inr (if data = JNone then JStr [] else data)"
    by (simp add: response_serialize_def serialize_def not_modified_response_def)
qed

end
