(* ===== verification/Response_Laws.thy ===== *)
theory Response_Laws
  imports Responses
begin

text \<open>
  Laws of serialisation that hold across all response classes: the links
  block has distinct keys, serialising a second time gives the same payload
  although the first call updated \<open>extra\<close> in place, the exceptions of
  \<open>dict.update\<close> on the converted data reach the caller, and the constructor's
  headers.
\<close>

section \<open>Well-formed values\<close>

lemma wf_values_update:
  "list_all (\<lambda>kv. P (snd kv)) d \<Longrightarrow> P v \<Longrightarrow> list_all (\<lambda>kv. P (snd kv)) (AList.update k v d)"
  by (induction d) auto

lemma wf_values_dict_update:
  "list_all (\<lambda>kv. P (snd kv)) d \<Longrightarrow> list_all (\<lambda>kv. P (snd kv)) e \<Longrightarrow>
   list_all (\<lambda>kv. P (snd kv)) (dict_update d e)"
proof (induction e arbitrary: d)
  case (Cons kv e)
  then show ?case by (cases kv) (simp add: wf_values_update)
qed simp

lemma json_wf_dict_update:
  "json_wf (JDict d) \<Longrightarrow> list_all (\<lambda>kv. json_wf (snd kv)) e \<Longrightarrow> json_wf (JDict (dict_update d e))"
  by (simp add: distinct_dict_update wf_values_dict_update)

lemma serialize_links_wf:
  assumes "serialize_links r = Inr links"
  shows "json_wf (JDict links)"
proof -
  have "json_wf (JDict (dict_update [] (map (\<lambda>(key, method, linked).
          (key, JDict [(''uri'', JStr (resource_uri (resp_context r) linked params)),
                       (''method'', JStr (py_upper method))])) ls)))" for params ls
    by (rule json_wf_dict_update) (auto simp: list_all_iff)
  with assms show ?thesis
    by (auto simp: serialize_links_def Let_def fold_links_dict_update split: if_splits option.splits)
qed

section \<open>Serialising twice\<close>

lemma serialize_links_distinct:
  "serialize_links r = Inr links \<Longrightarrow> distinct (map fst links)"
  using serialize_links_wf by simp

lemma add_links_shape:
  assumes "add_links r base = Inr out"
  shows "\<exists>v. map_of out (resp_links_key r) = Some v \<and> out = AList.update (resp_links_key r) v base"
proof -
  let ?lk = "resp_links_key r"
  obtain cur links where
    "out = AList.update ?lk (JDict (dict_update cur links))
             (if map_of base ?lk = None then AList.update ?lk (JDict []) base else base)"
    using assms by (auto simp: add_links_def Let_def bind_result_Inr_iff split: option.splits json.splits)
  then have "out = AList.update ?lk (JDict (dict_update cur links)) base"
    by (simp split: if_splits)
  then show ?thesis by (simp add: update_conv')
qed

lemma add_links_fixed:
  assumes "add_links r base = Inr out"
  shows "add_links r out = Inr out"
proof -
  let ?lk = "resp_links_key r"
  let ?resp = "if map_of base ?lk = None then AList.update ?lk (JDict []) base else base"
  obtain cur links where slot: "map_of ?resp ?lk = Some (JDict cur)"
    and links: "serialize_links r = Inr links"
    and out: "out = AList.update ?lk (JDict (dict_update cur links)) ?resp"
    using assms by (auto simp: add_links_def Let_def bind_result_Inr_iff split: option.splits json.splits)
  have o: "map_of out ?lk = Some (JDict (dict_update cur links))"
    using out by (simp add: update_conv')
  have "dict_update (dict_update cur links) links = dict_update cur links"
    using serialize_links_distinct [OF links] by (rule dict_update_idem)
  with o links show ?thesis
    by (simp add: add_links_def update_triv)
qed

lemma serialize_links_extra [simp]: "serialize_links (r\<lparr>resp_extra := x\<rparr>) = serialize_links r"
  by (simp add: serialize_links_def Let_def)

lemma add_links_extra [simp]: "add_links (r\<lparr>resp_extra := x\<rparr>) = add_links r"
  by (rule ext) (simp add: add_links_def Let_def cong: option.case_cong json.case_cong)

lemma alias_links_cases:
  assumes "alias_links lk sh extra d \<noteq> extra"
  shows "\<exists>e v. extra = JDict e \<and> lk \<notin> set sh \<and> map_of e lk \<noteq> None \<and> map_of d lk = Some v \<and>
           alias_links lk sh extra d = JDict (AList.update lk v e)"
  using assms by (auto simp: alias_links_def split: json.splits if_splits option.splits)

lemma alias_links_again:
  "map_of e lk \<noteq> None \<Longrightarrow> lk \<notin> set sh \<Longrightarrow> map_of d lk = Some v \<Longrightarrow>
   alias_links lk sh (JDict (AList.update lk v e)) d = JDict (AList.update lk v e)"
  by (simp add: alias_links_def update_conv')

lemma serialize_again:
  assumes s: "serialize r data representation = Inr (out, r')" and wf: "json_wf (resp_extra r)"
  shows "serialize r' data representation = Inr (out, r')"
proof (cases "resp_extra r' = resp_extra r")
  case True
  have "r' = r" using serialize_shape [OF s] True by simp
  with s show ?thesis by simp
next
  case False
  let ?lk = "resp_links_key r"
  have body: "\<not> (data = JNone \<and> \<not> truthy (resp_extra r))"
    using False s by (auto simp: serialize_def split: if_splits)
  have st: "200 \<le> resp_status r \<and> resp_status r < 300"
    using False s body by (auto simp: serialize_def split: if_splits)
  obtain ex c d where ex: "as_mapping (py_or (resp_extra r) (JDict [])) = Inr ex"
    and c: "as_mapping (convert (ctx_resource (resp_context r)) data representation) = Inr c"
    and d: "add_links r (dict_update (dict_update [] ex) c) = Inr d"
    and out: "out = JDict d"
    and r': "r' = r\<lparr>resp_extra := alias_links ?lk (map fst c) (resp_extra r) d\<rparr>"
    using s st by (auto simp: serialize_def if_not_P [OF body] bind_result_Inr_iff)
  have "alias_links ?lk (map fst c) (resp_extra r) d \<noteq> resp_extra r"
    using False r' by simp
  then obtain e v where e: "resp_extra r = JDict e" and nc: "?lk \<notin> set (map fst c)"
    and pe: "map_of e ?lk \<noteq> None" and v: "map_of d ?lk = Some v"
    and al: "alias_links ?lk (map fst c) (resp_extra r) d = JDict (AList.update ?lk v e)"
    by (blast dest: alias_links_cases)
  have "e \<noteq> []" using pe by auto
  then have ex_e: "ex = e" using ex e by (simp add: py_or_def)
  have de: "distinct (map fst e)" using wf e by simp
  have ke: "?lk \<in> set (map fst e)" using pe by (auto simp: map_of_eq_None_iff)
  have d_eq: "d = AList.update ?lk v (dict_update (dict_update [] e) c)"
    using add_links_shape [OF d] v ex_e by auto
  have "dict_update [] (AList.update ?lk v e) = AList.update ?lk v (dict_update [] e)"
    using de ke by (rule dict_update_inner)
  moreover have "?lk \<in> fst ` set (dict_update [] e)"
    using ke keys_dict_update [of "[]" e] by auto
  ultimately have base: "dict_update (dict_update [] (AList.update ?lk v e)) c = d"
    using nc d_eq by (simp add: dict_update_commute)
  have addl: "add_links r' d = Inr d"
    using add_links_fixed [OF d] r' by simp
  have alias2: "alias_links ?lk (map fst c) (JDict (AList.update ?lk v e)) d = JDict (AList.update ?lk v e)"
    using pe nc v by (rule alias_links_again)
  have r'e: "resp_extra r' = JDict (AList.update ?lk v e)"
    using r' al by simp
  have fr: "resp_status r' = resp_status r" "resp_context r' = resp_context r" "resp_links_key r' = ?lk"
    using r' by simp_all
  show ?thesis
    using st c base addl alias2 r'e fr out by (simp add: serialize_def py_or_def)
qed

lemma collection_serialize_again:
  assumes s: "collection_serialize r key tc data representation = Inr (out, r')"
    and wf: "json_wf (resp_extra r)"
  shows "collection_serialize r' key tc data representation = Inr (out, r')"
proof (cases "resp_extra r' = resp_extra r")
  case True
  have "r' = r" using collection_serialize_shape [OF s] True by simp
  with s show ?thesis by simp
next
  case False
  let ?lk = "resp_links_key r"
  let ?res = "ctx_resource (resp_context r)"
  obtain items ex d where items: "py_iter data = Inr items"
    and ex: "as_mapping (py_or (resp_extra r) (JDict [])) = Inr ex"
    and d: "add_links r (dict_update (AList.update ''totalCount''
               (JInt (case tc of Some n \<Rightarrow> n | None \<Rightarrow> int (length items)))
               (AList.update key (JList (map (\<lambda>x. convert ?res x representation) items)) [])) ex) = Inr d"
    and out: "out = JDict d"
    and r': "r' = r\<lparr>resp_extra := alias_links ?lk [] (resp_extra r) d\<rparr>"
    using s by (auto simp: collection_serialize_def Let_def bind_result_Inr_iff)
  let ?base = "AList.update ''totalCount'' (JInt (case tc of Some n \<Rightarrow> n | None \<Rightarrow> int (length items)))
               (AList.update key (JList (map (\<lambda>x. convert ?res x representation) items)) [])"
  have "alias_links ?lk [] (resp_extra r) d \<noteq> resp_extra r"
    using False r' by simp
  then obtain e v where e: "resp_extra r = JDict e"
    and pe: "map_of e ?lk \<noteq> None" and v: "map_of d ?lk = Some v"
    and al: "alias_links ?lk [] (resp_extra r) d = JDict (AList.update ?lk v e)"
    by (blast dest: alias_links_cases)
  have "e \<noteq> []" using pe by auto
  then have ex_e: "ex = e" using ex e by (simp add: py_or_def)
  have de: "distinct (map fst e)" using wf e by simp
  have ke: "?lk \<in> set (map fst e)" using pe by (auto simp: map_of_eq_None_iff)
  have d_eq: "d = AList.update ?lk v (dict_update ?base e)"
    using add_links_shape [OF d] v ex_e by auto
  have base: "dict_update ?base (AList.update ?lk v e) = d"
    using dict_update_inner [OF de ke] d_eq by simp
  have addl: "add_links r' d = Inr d"
    using add_links_fixed [OF d] r' by simp
  have alias2: "alias_links ?lk [] (JDict (AList.update ?lk v e)) d = JDict (AList.update ?lk v e)"
    using pe _ v by (rule alias_links_again) simp
  have r'e: "resp_extra r' = JDict (AList.update ?lk v e)"
    using r' al by simp
  have fr: "resp_context r' = resp_context r" "resp_links_key r' = ?lk"
    using r' by simp_all
  show ?thesis
    using items base addl alias2 r'e fr out by (simp add: collection_serialize_def Let_def py_or_def)
qed

lemma response_serialize_again:
  assumes "response_serialize r data representation = Inr (out, r')" and "json_wf (resp_extra r)"
  shows "response_serialize r' data representation = Inr (out, r')"
proof (cases "is_collection (resp_class r)")
  case True
  then obtain key tc where k: "resp_class r = CollectionResponse key tc"
    by (cases "resp_class r") simp_all
  with assms(1) have s: "collection_serialize r key tc data representation = Inr (out, r')"
    by (simp add: response_serialize_def)
  have "resp_class r' = resp_class r"
    using collection_serialize_shape [OF s] by (metis response.select_convs(10) response.surjective
      response.update_convs(6))
  with k collection_serialize_again [OF s assms(2)] show ?thesis
    by (simp add: response_serialize_def)
next
  case False
  with assms(1) have s: "serialize r data representation = Inr (out, r')"
    by (simp add: dispatch_not_collection)
  have "resp_class r' = resp_class r"
    using serialize_shape [OF s] by (metis response.select_convs(10) response.surjective
      response.update_convs(6))
  with False serialize_again [OF s assms(2)] show ?thesis
    by (simp add: dispatch_not_collection)
qed

section \<open>Properties\<close>

text \<open>
  C17. The exceptions of \<open>dict.update\<close> reach the caller: for a status in
  [200, 300) with data, when the converted data is not a mapping (a list of
  numbers, a non-empty string, a number) \<open>serialize\<close> raises what
  \<open>output.update\<close> raises, although the spec says the core has no exception
  path. A \<open>Response\<close> with the list \<open>[1, 2]\<close> as data raises \<open>TypeError\<close>.
\<close>

theorem serialize_rejects_non_mapping:
  assumes "200 \<le> resp_status r" and "resp_status r < 300" and "\<not> is_collection (resp_class r)"
    and "data \<noteq> JNone"
    and "as_mapping (py_or (resp_extra r) (JDict [])) = Inr ex"
    and "as_mapping (convert (ctx_resource (resp_context r)) data representation) = Inl err"
  shows "response_serialize r data representation = Inl err"
  using assms by (simp add: dispatch_not_collection serialize_def)

theorem serialize_rejects_non_mapping_witness:
  "response_serialize (response_init demo_context (JList [JInt 1, JInt 2]) 200 None None JNone True ''_links'')
     (JList [JInt 1, JInt 2]) ''default'' = Inl TypeError"
proof -
  let ?r = "response_init demo_context (JList [JInt 1, JInt 2]) 200 None None JNone True ''_links''"
  have s: "200 \<le> resp_status ?r" "resp_status ?r < 300" "\<not> is_collection (resp_class ?r)"
    by simp_all
  have e: "as_mapping (py_or (resp_extra ?r) (JDict [])) = Inr []"
    by (simp add: py_or_def)
  have c: "as_mapping (convert (ctx_resource (resp_context ?r)) (JList [JInt 1, JInt 2]) ''default'')
      = Inl TypeError"
    by (simp add: demo_defs convert_def as_mapping_def)
  show ?thesis using serialize_rejects_non_mapping [OF s _ e c] by simp
qed

text \<open>
  C25. \<open>Response.__init__\<close> copies the caller's headers into a new dictionary
  and then, when a modification date is given, sets \<open>Last-Modified\<close> over
  any value the caller passed; without a date a caller's own
  \<open>Last-Modified\<close> header is kept.
\<close>

theorem response_init_headers:
  assumes "distinct (map fst h)"
  shows "map_of (resp_headers (response_init ctx data status (Some h) lm extra al lk))
           = (case lm of None \<Rightarrow> map_of h | Some t \<Rightarrow> (map_of h)(''Last-Modified'' \<mapsto> http_date t)) \<and>
         distinct (map fst (resp_headers (response_init ctx data status (Some h) lm extra al lk)))"
  using assms
  by (cases lm) (simp_all add: response_init_def set_last_modified_def map_of_dict_update map_of_rev_distinct
                              update_conv' distinct_dict_update distinct_update)

theorem response_init_headers_witness:
  "map_of (resp_headers (response_init demo_context JNone 200
       (Some [(''Last-Modified'', ''yesterday''), (''ETag'', ''e1'')]) None JNone True ''_links''))
     ''Last-Modified'' = Some ''yesterday''"
proof -
  have d: "distinct (map fst [(''Last-Modified'', ''yesterday''), (''ETag'', ''e1'')])" by simp
  show ?thesis using response_init_headers [OF d, of demo_context JNone 200 None JNone True "''_links''"] by simp
qed

end
