(* ===== verification/Response_Lifecycle.thy ===== *)
theory Response_Lifecycle
  imports Response_Laws
begin

text \<open>
  The life of one response object as a sequence of method calls: after
  construction a handler may call \<open>set_last_modified\<close> and the host calls
  \<open>serialize\<close>, and nothing in the code stops either from happening again. A
  call either returns (a payload, or nothing) or raises; \<open>serialize\<close> raises
  before it mutates anything, so a raising call leaves the object as it was.
\<close>

datatype resp_op = SetLastModified "int option" | Serialize json string

datatype resp_obs = Done | Payload json | Raised py_error

inductive resp_step :: "response \<Rightarrow> resp_op \<Rightarrow> resp_obs \<Rightarrow> response \<Rightarrow> bool" where
  set_lm: "resp_step r (SetLastModified dt) Done (set_last_modified dt r)"
| ser_ok: "response_serialize r data representation = Inr (out, r') \<Longrightarrow>
           resp_step r (Serialize data representation) (Payload out) r'"
| ser_err: "response_serialize r data representation = Inl e \<Longrightarrow>
           resp_step r (Serialize data representation) (Raised e) r"

inductive resp_run :: "response \<Rightarrow> resp_op list \<Rightarrow> resp_obs list \<Rightarrow> response \<Rightarrow> bool" where
  run_nil: "resp_run r [] [] r"
| run_cons: "resp_step r op obs r1 \<Longrightarrow> resp_run r1 ops obss r' \<Longrightarrow> resp_run r (op # ops) (obs # obss) r'"

code_pred resp_step .
code_pred resp_run .

inductive_cases resp_step_SerE: "resp_step r (Serialize data representation) obs r'"
inductive_cases resp_run_ConsE: "resp_run r (op # ops) obss r'"
inductive_simps resp_run_Nil: "resp_run r [] obss r'"

section \<open>One call\<close>

lemma resp_step_deterministic:
  "resp_step r op obs1 r1 \<Longrightarrow> resp_step r op obs2 r2 \<Longrightarrow> obs1 = obs2 \<and> r1 = r2"
  by (induction arbitrary: obs2 r2 rule: resp_step.induct) (auto elim: resp_step.cases)

lemma resp_step_progress: "\<exists>obs r'. resp_step r op obs r'"
proof (cases op)
  case (SetLastModified dt)
  then show ?thesis using set_lm by blast
next
  case (Serialize data representation)
  show ?thesis
  proof (cases "response_serialize r data representation")
    case (Inl e)
    then show ?thesis using ser_err Serialize by blast
  next
    case (Inr res)
    then obtain out r' where "response_serialize r data representation = Inr (out, r')"
      by (cases res) simp
    then show ?thesis using ser_ok Serialize by blast
  qed
qed

lemma resp_step_again:
  assumes "resp_step r (Serialize data representation) obs r'" and "json_wf (resp_extra r)"
  shows "resp_step r' (Serialize data representation) obs r'"
  using assms(1)
proof (rule resp_step_SerE)
  fix out
  assume s: "response_serialize r data representation = Inr (out, r')" and o: "obs = Payload out"
  have "response_serialize r' data representation = Inr (out, r')"
    using s assms(2) by (rule response_serialize_again)
  then show ?thesis unfolding o by (rule resp_step.ser_ok)
next
  fix e
  assume s: "response_serialize r data representation = Inl e" and "obs = Raised e" and "r' = r"
  then show ?thesis using resp_step.ser_err [OF s] by simp
qed

lemma resp_run_fixed:
  "resp_step r op obs r \<Longrightarrow> resp_run r (replicate n op) obss r' \<Longrightarrow> obss = replicate n obs \<and> r' = r"
proof (induction n arbitrary: obss)
  case 0
  then show ?case by (simp add: resp_run_Nil)
next
  case (Suc n)
  from Suc.prems(2) obtain o1 r1 obss' where "resp_step r op o1 r1" "resp_run r1 (replicate n op) obss' r'"
    and "obss = o1 # obss'" by (auto elim: resp_run_ConsE)
  with Suc.prems(1) Suc.IH show ?case by (metis resp_step_deterministic replicate_Suc)
qed


section \<open>Properties of runs\<close>

text \<open>
  C26. Serialising reaches a stable state: from any response whose
  \<open>extra\<close> has distinct keys, the first \<open>serialize\<close> call returns or
  raises, and the object it leaves is a fixed point of that call: every
  later run of the same call, of any length, observes the outcome of the
  first call each time and leaves the object unchanged.
\<close>

theorem resp_serialize_stabilises:
  assumes "json_wf (resp_extra r)"
  shows "\<exists>obs r1. resp_step r (Serialize data representation) obs r1 \<and>
           (\<forall>n obss r'. resp_run r1 (replicate n (Serialize data representation)) obss r' \<longrightarrow>
              obss = replicate n obs \<and> r' = r1)"
proof -
  obtain obs r1 where st: "resp_step r (Serialize data representation) obs r1"
    using resp_step_progress by blast
  have "resp_step r1 (Serialize data representation) obs r1"
    using st assms by (rule resp_step_again)
  then have "\<forall>n obss r'. resp_run r1 (replicate n (Serialize data representation)) obss r' \<longrightarrow>
              obss = replicate n obs \<and> r' = r1"
    by (blast dest: resp_run_fixed)
  with st show ?thesis by blast
qed

theorem resp_serialize_stabilises_witness:
  "json_wf (resp_extra (response_init demo_context (JDict [(''a'', JInt 1)]) 200 None None
              (JDict [(''_links'', JDict [(''self'', JStr ''x'')])]) True ''_links'')) \<and>
   (\<exists>obs r1. resp_step (response_init demo_context (JDict [(''a'', JInt 1)]) 200 None None
              (JDict [(''_links'', JDict [(''self'', JStr ''x'')])]) True ''_links'')
              (Serialize (JDict [(''a'', JInt 1)]) ''default'') obs r1 \<and>
      (\<forall>n obss r'. resp_run r1 (replicate n (Serialize (JDict [(''a'', JInt 1)]) ''default'')) obss r' \<longrightarrow>
         obss = replicate n obs \<and> r' = r1))"
proof -
  let ?r = "response_init demo_context (JDict [(''a'', JInt 1)]) 200 None None
              (JDict [(''_links'', JDict [(''self'', JStr ''x'')])]) True ''_links''"
  have e: "json_wf (resp_extra ?r)" by simp
  show ?thesis using e resp_serialize_stabilises [OF e] by blast
qed

end
