(* ===== verification/Django_Pattern.thy ===== *)
theory Django_Pattern
  imports Urltemplate
begin

text \<open>
  The regular expression \<open>to_django_urlpattern\<close> builds, and how Python's \<open>re\<close>
  reads and matches it (library semantics). The pattern is the template with
  each placeholder replaced by \<open>/(?P<name>[^/]+)\<close> and every other character
  copied unescaped. \<open>rx_parse\<close> reads the fragment of Python's regex syntax
  such a pattern uses when the template's only metacharacter is \<open>.\<close>:
  ordinary characters, the wildcard \<open>.\<close> and the named groups; any other
  metacharacter is outside the fragment and reads as \<open>None\<close>. Django resolves a path with \<open>regex.search\<close>, which returns the
  match at position 0 when there is one: matching is anchored at the start and
  not at the end (the pattern has no \<open>^\<close> or \<open>$\<close>). A group \<open>[^/]+\<close> is
  greedy: the longest run of characters other than \<open>/\<close> is tried first, then
  shorter ones, down to one character.
\<close>

datatype rx = RChar char | RAny | RGroup string

fun rx_text :: "rx \<Rightarrow> string" where
  "rx_text (RChar c) = [c]"
| "rx_text RAny = ''.''"
| "rx_text (RGroup n) = ''/(?P<'' @ n @ ''>[^/]+)''"

fun rx_of :: "seg list \<Rightarrow> rx list" where
  "rx_of [] = []"
| "rx_of (Lit c # ts) = RChar c # rx_of ts"
| "rx_of (Ph n # ts) = RGroup n # rx_of ts"
| "rx_of (Sub r # ts) = map RChar r @ rx_of ts"

text \<open>
  The pattern of a segment list with each literal \<open>.\<close> read as the wildcard
  it is in Python's syntax.
\<close>

fun rx_read :: "seg list \<Rightarrow> rx list" where
  "rx_read [] = []"
| "rx_read (Lit c # ts) = (if c = CHR ''.'' then RAny else RChar c) # rx_read ts"
| "rx_read (Ph n # ts) = RGroup n # rx_read ts"
| "rx_read (Sub r # ts) = map RChar r @ rx_read ts"




function rx_match :: "rx list \<Rightarrow> string \<Rightarrow> (string \<times> string) list option"
  and group_match :: "string \<Rightarrow> rx list \<Rightarrow> string \<Rightarrow> nat \<Rightarrow> (string \<times> string) list option" where
  "rx_match [] s = Some []"
| "rx_match (RChar c # rs) s =
     (case s of d # s' \<Rightarrow> if d = c then rx_match rs s' else None | [] \<Rightarrow> None)"
| "rx_match (RAny # rs) s = (case s of d # s' \<Rightarrow> rx_match rs s' | [] \<Rightarrow> None)"
| "rx_match (RGroup n # rs) s =
     (case s of d # s' \<Rightarrow> if d = CHR ''/'' then group_match n rs s' (length (takeWhile (\<lambda>c. c \<noteq> CHR ''/'') s'))
                          else None
              | [] \<Rightarrow> None)"
| "group_match n rs s 0 = None"
| "group_match n rs s (Suc k) =
     (case rx_match rs (drop (Suc k) s) of
        Some b \<Rightarrow> Some ((n, take (Suc k) s) # b)
      | None \<Rightarrow> group_match n rs s k)"
  by pat_completeness auto
termination
  by (relation "inv_image (less_than <*lex*> less_than)
       (\<lambda>x. case x of Inl (rs, s) \<Rightarrow> (2 * length rs, 0) | Inr (n, rs, s, k) \<Rightarrow> (2 * length rs + 1, k))") auto

section \<open>Lemmas\<close>








lemma gt_not_ident [simp]: "\<not> is_ident_char CHR ''>''"
  by (simp add: is_ident_char_def)





section \<open>Properties\<close>



text \<open>
  C20. The pattern carries no anchors, and Django's \<open>regex.search\<close> accepts a
  match that stops before the end of the path: the pattern of \<open>/users/:id\<close>
  also resolves \<open>/users/5/delete\<close>, with \<open>id = 5\<close>.
\<close>

theorem django_pattern_unanchored:
  "to_django_urlpattern ''/users/:id'' = ''/users/(?P<id>[^/]+)'' \<and>
   concat (map rx_text (rx_of (scan ''/users/:id''))) = to_django_urlpattern ''/users/:id'' \<and>
   rx_match (rx_of (scan ''/users/:id'')) ''/users/5/delete'' = Some [(''id'', ''5'')]"
  by code_simp

text \<open>
  C22. Literal characters are not escaped: in the pattern of
  \<open>/files/:name.json\<close> the \<open>.\<close> matches any character, so the pattern
  resolves \<open>/files/axjson\<close> with \<open>name = a\<close>, although the URL of that value
  is \<open>/files/a.json\<close>.
\<close>

theorem django_pattern_dot_wildcard:
  "to_django_urlpattern ''/files/:name.json'' = ''/files/(?P<name>[^/]+).json'' \<and>
   concat (map rx_text (rx_read (scan ''/files/:name.json''))) = to_django_urlpattern ''/files/:name.json'' \<and>
   rx_match (rx_read (scan ''/files/:name.json'')) ''/files/axjson'' = Some [(''name'', ''a'')] \<and>
   to_url ''/files/:name.json'' [''name'' \<mapsto> ''a''] = ''/files/a.json''"
  by code_simp


end
