(* ===== verification/Spec2Isabelle.thy ===== *)
theory Spec2Isabelle
  imports Call_Binding Response_Lifecycle Django_Pattern
begin

text \<open>
  A verification development for restosaur (\<open>src/restosaur\<close>), the layer that
  turns application data into hyperlinked JSON responses on top of Django.

  \<^bold>\<open>The program.\<close> Three modules. \<open>urltemplate.py\<close> substitutes and strips
  placeholders \<open>/:name\<close> in URL templates (\<open>to_url\<close>,
  \<open>remove_parameters\<close>) and compiles a template to a Django URL pattern
  (\<open>to_django_urlpattern\<close>). \<open>context.py\<close> holds the per-request
  \<open>Context\<close> (request, resource, body, headers) with one factory method per
  response class. \<open>responses.py\<close> holds \<open>Response\<close> and its subclasses: a
  status, headers, optional \<open>extra\<close> items, and \<open>serialize\<close>, which for a
  status in [200, 300) merges \<open>extra\<close>, the data converted by the resource's
  representation and a links block built from the resource's declared links;
  \<open>CollectionResponse\<close> overrides \<open>serialize\<close> with an items list and a total
  count. A handler builds a \<open>Context\<close>, obtains a response from one of its
  factories, and the host serialises it; links are resolved through the linked
  resource's template with \<open>to_url\<close>.

  \<^bold>\<open>The library.\<close>
  \<^item> \<open>Restosaur_Prelude\<close>: Python exceptions (\<open>py_error\<close>, results
    \<open>py_error + 'a\<close> with \<open>bind_result\<close>), Python values (\<open>json\<close>, truthiness
    \<open>truthy\<close>, \<open>py_or\<close>), dictionaries as association lists updated as
    \<open>dict.update\<close> does (\<open>dict_update\<close>, \<open>as_mapping\<close> for its argument,
    \<open>py_iter\<close>), and the Python 2 builtins \<open>str.replace\<close> (\<open>py_replace\<close>) and
    \<open>str.upper\<close> (\<open>py_upper\<close>); lemmas on them (\<open>map_of_dict_update\<close>, the
    characteristic cases of \<open>replace_occurrences\<close>).
  \<^item> \<open>Urltemplate\<close>: \<open>RE_PARAMS\<close> as a scanner (\<open>re_params_findall\<close>,
    \<open>re_params_sub\<close>), \<open>to_url\<close>, \<open>remove_parameters\<close>,
    \<open>to_django_urlpattern\<close>; the single-pass substitution \<open>resolve_spec\<close> of
    the spec; a segment view of templates (\<open>scan\<close>, \<open>render\<close>, \<open>seg_wf\<close>) in
    which one \<open>str.replace\<close> of a needle is a substitution of segments
    (\<open>replace_render\<close>) and the scanner finds exactly the placeholder segments
    (\<open>findall_render\<close>).
  \<^item> \<open>Http_Date\<close>: Django's \<open>http_date\<close> (library semantics, RFC 7231
    IMF-fixdate of a Unix time), used for \<open>Last-Modified\<close>.
  \<^item> \<open>Resource\<close>: the resource interface, modelled from the spec (the class is
    not under \<open>src/\<close>): representations, declared links, \<open>convert\<close>.
  \<^item> \<open>Context_Model\<close>: the \<open>Context\<close> record (\<open>context_init\<close>,
    \<open>build_absolute_uri\<close>, \<open>deserialized\<close>) and a linked resource's
    \<open>resource_uri\<close> (\<open>to_url\<close> then \<open>build_absolute_uri\<close>, from the spec).
  \<^item> \<open>Responses\<close>: the \<open>response\<close> record with its class tag \<open>resp_class\<close>,
    \<open>response_init\<close> and one constructor per subclass, \<open>set_last_modified\<close>,
    \<open>get_converter\<close>, \<open>serialize_links\<close> (\<open>_serialize_links\<close>),
    \<open>add_links\<close> (\<open>_add_links\<close>), \<open>serialize\<close>, \<open>collection_serialize\<close> and
    the dispatch \<open>response_serialize\<close>; the abstract envelope (\<open>envelope\<close>,
    \<open>collection_envelope\<close>) that a successful serialisation refines.
  \<^item> \<open>Context_Factories\<close>: the factory methods of \<open>Context\<close>
    (\<open>ctx_Response\<close> ... \<open>ctx_Collection\<close>) and attribute lookup by name.
  \<^item> \<open>Response_Laws\<close>: laws of serialisation over all classes (no new
    definitions): the shape of \<open>_add_links\<close>' result and its fixed point
    (\<open>add_links_fixed\<close>), from which a second serialisation repeats the
    first despite the aliasing of \<open>extra\<close> (\<open>serialize_again\<close>,
    \<open>response_serialize_again\<close>); the exceptions of \<open>dict.update\<close>; the
    constructor's headers.
  \<^item> \<open>Response_Lifecycle\<close>: the life of one response object as method
    calls (\<open>resp_op\<close>: \<open>set_last_modified\<close>, \<open>serialize\<close>) with their
    outcomes (\<open>resp_obs\<close>: nothing, a payload, an exception), the step relation
    \<open>resp_step\<close> and its runs \<open>resp_run\<close> (inductive predicates, executable
    by \<open>code_pred\<close>), with rule inversion.
  \<^item> \<open>Django_Pattern\<close>: the regular expression \<open>to_django_urlpattern\<close>
    builds (\<open>rx\<close>, \<open>rx_text\<close>, \<open>rx_of\<close>, and \<open>rx_read\<close>, which reads a
    copied \<open>.\<close> as the wildcard it is), Python's reading of the pattern text
    (\<open>rx_parse\<close>, for the fragment of the syntax without other
    metacharacters, \<open>regex_meta\<close>; library semantics) and Python's matching
    (\<open>rx_match\<close>, \<open>group_match\<close>; library semantics: anchored at the start
    as Django's \<open>regex.search\<close> at position 0, greedy \<open>[^/]+\<close> with
    backtracking).
  \<^item> \<open>Call_Binding\<close>: Python 2 argument binding (\<open>bind_call\<close>, language
    semantics) and the signatures of the sources (\<open>sig_Context_init\<close>,
    \<open>sig_build_absolute_uri\<close>, the response constructors, \<open>class_signature\<close>),
    the forwarding of \<open>CollectionResponse.__init__\<close> (\<open>construct_call\<close>) and
    of the context factories (\<open>ctx_factory_call\<close>), and the fixture of
    \<open>src/tests/test_context.py\<close> (\<open>test_create_context\<close>).
  \<^item> this theory: properties across components.

  \<^bold>\<open>State and effects.\<close> Objects are records passed explicitly: a constructor
  returns the record, \<open>set_last_modified\<close> the updated one, and serialisation
  the payload with the response afterwards, because \<open>_add_links\<close> updates the
  links dictionary in place and that dictionary may be the caller's
  \<open>extra[links_key]\<close> (\<open>alias_links\<close>). Exceptions are \<open>Inl\<close>: \<open>TypeError\<close>
  and \<open>ValueError\<close> from \<open>dict.update\<close> and iteration, \<open>AttributeError\<close> from
  a missing \<open>context.parameters\<close> or a links value without \<open>update\<close>.

  \<^bold>\<open>What is proved.\<close>
  \<^item> URL templates: \<open>to_url\<close> equals the single-pass substitution of the
    spec when no placeholder name is a proper prefix of another and the values
    are non-empty, without \<open>/\<close> and not starting with \<open>:\<close> (C1); the
    placeholders it leaves are exactly those with a missing key, in order (C2);
    without the prefix condition it corrupts placeholders (C3, a code bug);
    \<open>remove_parameters\<close> can create a placeholder (C4, against the spec), and
    without that clash it is the one-pass strip \<open>RE_PARAMS.sub('', t)\<close> (C18);
    \<open>findall\<close> makes at most a third as many matches as the template has
    characters (C21).
  \<^item> The Django pattern: for a template whose only regex metacharacter is
    \<open>.\<close>, the pattern the code emits is read by Python as a regex that matches
    the URL \<open>to_url\<close> builds and gives each value back (C19, a round trip);
    having no anchors it also resolves longer paths (C20), and an unescaped
    \<open>.\<close> matches any character (C22).
  \<^item> Serialisation: the success branch refines the abstract envelope (C5); the
    links block is additive (C6); the bodiless (C7) and raw error (C8)
    branches; the collection envelope with the default count (C9);
    \<open>Last-Modified\<close> (C13), set by the constructor over a caller's own header
    and kept without a date (C25); after one \<open>serialize\<close> call the object is
    a fixed point of that call, every later call observing the same outcome
    despite the in-place update (C26, liveness: the object stabilises after one
    step).
  \<^item> Defects and divergences: links raise \<open>AttributeError\<close> for a context from
    \<open>Context.__init__\<close> (C10); \<open>extra\<close> without data raises \<open>TypeError\<close> under
    the identity converter (C11); serialisation mutates \<open>extra\<close> (C12); the
    factories \<open>Created\<close>, \<open>NotFound\<close>, \<open>NotModified\<close> are missing (C15);
    converted data that is not a mapping raises the exception of
    \<open>dict.update\<close>, although the spec promises no exception path (C17);
    \<open>NoContent\<close> and \<open>NotModified\<close> take data and serialise it, although the
    spec gives both an empty payload (C27).
  \<^item> The test suite against the signatures: its fixture cannot build a
    \<open>Context\<close> (C23), and its \<open>build_absolute_uri\<close> calls raise (C24).
  \<^item> Across components: the \<open>ValidationError\<close> factory's payload (C14); every
    generated link is the linked template resolved by the spec's substitution
    (C16).

  \<^bold>\<open>Termination.\<close> Every function is total: structural recursion, or a
  \<open>length\<close> measure for the scanner (\<open>re_params_findall\<close>, \<open>re_params_sub\<close>,
  \<open>scan\<close>, and the pattern reader \<open>rx_parse\<close>), which consumes at least
  three characters per match or one per step;
  for the matcher \<open>rx_match\<close>/\<open>group_match\<close> the pair (twice the pattern
  length, plus one in \<open>group_match\<close>; the group length tried) decreases
  lexicographically.
  No fuel is needed: the modelled code has no unbounded loop.

  \<^bold>\<open>Not modelled.\<close> The Django request beyond \<open>build_absolute_uri\<close> (taken
  as a function), \<open>times.to_unix\<close> (a \<open>datetime\<close> is its Unix time),
  non-string dictionary keys, and the host's encoding of the payload. The
  converters' use of the context: a converter is application code outside
  \<open>src/\<close> that receives the \<open>Context\<close>, which holds the resource that holds
  the converter, so \<open>convert\<close> is taken as a function of the resource, the
  data and the representation. The aliasing of the data's own links dictionary:
  \<open>output.update(converted)\<close> copies references, so when the converted data
  holds a dictionary under \<open>links_key\<close> (under the identity converter, the
  caller's data itself), \<open>_add_links\<close> updates that dictionary in place and
  \<open>serialize(self.data, representation)\<close> changes the response's own data;
  recording it needs the identity of the argument, which a value model of
  the call does not have, so no property here says the data stays unchanged
  (a finding). Likewise, when \<open>extra\<close> is given as a list of pairs, the
  dictionary updated in place is a pair's value, which \<open>alias_links\<close> (the
  aliasing for a dictionary \<open>extra\<close>) does not record. In
  \<open>Django_Pattern\<close> the pattern text is read by \<open>rx_parse\<close> only for the
  fragment of Python's syntax without metacharacters other than \<open>.\<close>; a
  template with \<open>+\<close>, \<open>*\<close>, \<open>?\<close>, brackets or the like reads as \<open>None\<close>
  (outside the model), and \<open>rx_of\<close>, \<open>rx_read\<close> are the readings of the
  segment lists such templates do not reach; the URL resolver is reduced to \<open>regex.search\<close> at position 0. Of the test
  suite only the calls are modelled, by their arity and keyword names; Django's
  \<open>RequestFactory\<close> and the assertions about date parsing and query
  parameters test functions the sources do not define. The spec's \<open>isModifiedSince\<close> and \<open>buildAbsoluteUri\<close> with query
  parameters do not exist in the sources (findings).

  \<^bold>\<open>Status.\<close> Every operation of \<open>urltemplate.py\<close>, \<open>context.py\<close> and
  \<open>responses.py\<close> that changes state is a definition of the library; what
  remains outside is listed above, with the reason why it cannot be modelled
  faithfully from the sources.
\<close>

text \<open>
  C16. Links and templates together: every link a response generates carries
  the linked resource's URL template resolved by the spec's single-pass
  substitution with the context's parameters (when the link template's names
  are prefix-free and the parameter values safe), made absolute by the request,
  and the upper-cased method.
\<close>

theorem link_uri_resolved:
  assumes "resp_add_links r" and "ctx_parameters (resp_context r) = Some params"
    and "distinct (map fst (res_links (ctx_resource (resp_context r))))"
    and "(key, method, linked) \<in> set (res_links (ctx_resource (resp_context r)))"
    and "prefix_free_names (lr_path linked)" and "safe_params (lr_path linked) params"
  shows "\<exists>links. serialize_links r = Inr links \<and>
           map_of links key = Some (JDict
             [(''uri'', JStr (req_build_absolute_uri (ctx_request (resp_context r))
                                (resolve_spec (lr_path linked) params))),
              (''method'', JStr (py_upper method))])"
proof -
  have "to_url (lr_path linked) params = resolve_spec (lr_path linked) params"
    using to_url_segments [OF assms(5,6)] by (simp add: resolve_spec_scan)
  then show ?thesis
    using serialize_links_entry [OF assms(1-4)] by (simp add: resource_uri_def build_absolute_uri_def)
qed

theorem link_uri_resolved_witness:
  "prefix_free_names ''/other/:id'' \<and> safe_params ''/other/:id'' [''id'' \<mapsto> ''5''] \<and>
   (\<exists>links. serialize_links (response_init demo_context (JDict [(''a'', JInt 1)]) 200 None None JNone True ''_links'')
              = Inr links \<and>
            map_of links ''other'' = Some (JDict [(''uri'', JStr ''http://testserver/other/5''),
                                                  (''method'', JStr ''GET'')]))"
proof -
  let ?r = "response_init demo_context (JDict [(''a'', JInt 1)]) 200 None None JNone True ''_links''"
  have pf: "prefix_free_names ''/other/:id''" by code_simp
  have sp: "safe_params ''/other/:id'' [''id'' \<mapsto> ''5'']" by code_simp
  have al: "resp_add_links ?r" by simp
  have p: "ctx_parameters (resp_context ?r) = Some [''id'' \<mapsto> ''5'']" by (simp add: demo_defs)
  have d: "distinct (map fst (res_links (ctx_resource (resp_context ?r))))" by (simp add: demo_defs)
  have m: "(''other'', ''get'', \<lparr>lr_path = ''/other/:id''\<rparr>) \<in> set (res_links (ctx_resource (resp_context ?r)))"
    by (simp add: demo_defs)
  have u: "req_build_absolute_uri (ctx_request (resp_context ?r)) (resolve_spec ''/other/:id'' [''id'' \<mapsto> ''5''])
      = ''http://testserver/other/5''"
    by (simp add: demo_defs) code_simp
  have g: "py_upper ''get'' = ''GET''" by code_simp
  from link_uri_resolved [OF al p d m, simplified, OF pf sp] u g pf sp show ?thesis by simp
qed

end
